theory Spec2Isabelle
  imports Complex_Main "HOL-Library.Option_ord" "HOL-Library.Sublist"
begin

section \<open>ArthurDex backend (server.js): data model\<close>

text \<open>
  The model follows \<^verbatim>\<open>server.js\<close>. A request handler is a function from the
  environment, the request and the server's stores to a response and the stores afterwards.
  Values of the request body that the handlers test for presence are options: \<open>None\<close> is
  \<^verbatim>\<open>undefined\<close>. Strings are the only other falsy values that occur (the empty string).
\<close>

subsection \<open>Documents of the three collections\<close>

record Account =
  account_accountId :: string
  privateKeyEncrypted :: "string option"
  account_passphrase :: "string option"
  hbar :: int

record User =
  username :: string
  passwordHash :: string
  passphrase :: string
  accounts :: "Account list"

text \<open>
  What \<^verbatim>\<open>BigInt(x)\<close> sees of a JavaScript number: an integral value, or a value that
  is not an integer (a fraction, NaN, an infinity), on which it throws a RangeError;
  \<open>NonIntegral\<close> carries the number as JavaScript prints it.
\<close>

datatype jsnum = Integral int | NonIntegral string

record Transaction =
  accountId :: "string option"
  type :: "string option"
  tokenId :: "string option"
  amount :: "jsnum option"
  status :: string
  transactionId :: "string option"
  metadata :: "string option"
  createdAt :: "nat option"

record Price =
  coinId :: string
  usd :: "rat option"
  change_24h :: rat
  updatedAt :: nat

subsection \<open>The ledger SDK, as far as the handlers use it\<close>

datatype AccountId = AccountId string
datatype TokenId = TokenId string
datatype PrivateKey = PrivateKey string
datatype PublicKey = PublicKey string

datatype TokenType = FungibleCommon | NonFungibleUnique
datatype TokenSupplyType = Infinite | Finite

text \<open>
  The token transfers of a transaction are its legs: token, account and the amount, a
  signed 64-bit number (the SDK's \<^verbatim>\<open>Long\<close>), kept here as the integer it denotes.
\<close>

record TransferTransaction =
  tokenTransfers :: "(TokenId \<times> AccountId \<times> int) list"
  transactionMemo :: "string option"
  frozen :: bool
  signers :: "PrivateKey list"

record TokenCreateTransaction =
  tokenName :: string
  tokenSymbol :: string
  decimals :: jsnum
  initialSupply :: int
  treasuryAccountId :: AccountId
  tokenType :: TokenType
  supplyType :: TokenSupplyType
  adminKey :: PublicKey
  supplyKey :: PublicKey

datatype ledger_tx = Transfer TransferTransaction | TokenCreate TokenCreateTransaction

record TransactionResponse =
  resp_transactionId :: string

record TransactionReceipt =
  receipt_status :: string
  receipt_tokenId :: "string option"

text \<open>The calls that go to the ledger network, in the order they are made.\<close>

datatype ledger_call = Execute ledger_tx | GetReceipt TransactionResponse

subsection \<open>The oracle's answer to one HTTP request\<close>

record quote =
  quote_usd :: "rat option"
  usd_24h_change :: "rat option"

text \<open>
  \<open>TransportError\<close>: \<^verbatim>\<open>fetch\<close> throws. \<open>NotOk\<close>: a response whose \<^verbatim>\<open>r.ok\<close> is
  false, with status and text. \<open>BadJson\<close>: \<^verbatim>\<open>r.json()\<close> throws. \<open>OkJson\<close>: the members
  of the JSON object of the body, in the order of the text.
\<close>

datatype http_result =
    TransportError string
  | NotOk nat string
  | BadJson string
  | OkJson "(string \<times> quote) list"

subsection \<open>Configuration and environment\<close>

text \<open>
  The constants read from the process environment at start, and what the outside world
  answers during one operation: the SDK's parsers, the ledger network, bcrypt, the price
  oracle, the database's answer to a write of a Transaction document (\<open>create_rejected\<close>:
  \<open>None\<close> when the write is accepted, the driver's message when it is rejected) and the
  clock. A result \<open>Inl msg\<close> is a thrown error with message \<open>msg\<close>.
  The clock is read as one value for the whole operation: every \<^verbatim>\<open>new Date()\<close> and
  \<^verbatim>\<open>Date.now\<close> of the operation is \<open>now\<close>.
\<close>

record env =
  MONGO_URI :: string
  HEDERA_OPERATOR_ID :: string
  HEDERA_OPERATOR_KEY :: string
  accountIdFromString :: "string \<Rightarrow> string + AccountId"
  tokenIdFromString :: "string \<Rightarrow> string + TokenId"
  privateKeyFromString :: "string \<Rightarrow> string + PrivateKey"
  publicKey :: "PrivateKey \<Rightarrow> PublicKey"
  execute :: "ledger_tx \<Rightarrow> string + TransactionResponse"
  getReceipt :: "TransactionResponse \<Rightarrow> string + TransactionReceipt"
  hashPassword :: "string \<Rightarrow> string + string"
  fetch :: http_result
  create_rejected :: "string option"
  now :: nat

subsection \<open>The stores\<close>

text \<open>
  The three collections of the database (documents in insertion order), the in-memory
  fallback \<^verbatim>\<open>memoryStore\<close> (\<open>mem_users\<close> is the \<^verbatim>\<open>Map\<close> in insertion order,
  \<open>mem_prices\<close> is \<open>None\<close> until \<^verbatim>\<open>memoryStore.prices\<close> is first assigned), and the log
  of calls made to the ledger network. The database is taken to answer every read; of its
  writes, the unique index on \<^verbatim>\<open>username\<close> and the rejection of a Transaction
  document are modelled.
\<close>

record state =
  db_users :: "User list"
  db_txs :: "Transaction list"
  db_prices :: "Price list"
  mem_users :: "(string \<times> User) list"
  mem_txs :: "Transaction list"
  mem_prices :: "Price list option"
  ledger_log :: "ledger_call list"

definition init_state :: state where
  "init_state = \<lparr> db_users = [], db_txs = [], db_prices = [], mem_users = [], mem_txs = [],
     mem_prices = None, ledger_log = [] \<rparr>"

subsection \<open>Responses\<close>

datatype token = Token string

datatype body =
    ErrorBody string "string option"
  | AuthOk token
  | TransferOk string string
  | TokenCreateOk "string option" string
  | TransactionsBody string "Transaction list"
  | TransactionCreated Transaction
  | PricesBody "Price list"

datatype response = Response nat body

fun status_code :: "response \<Rightarrow> nat" where
  "status_code (Response c b) = c"

fun response_body :: "response \<Rightarrow> body" where
  "response_body (Response c b) = b"

definition error :: "nat \<Rightarrow> string \<Rightarrow> response" where
  "error c msg = Response c (ErrorBody msg None)"

definition error_details :: "nat \<Rightarrow> string \<Rightarrow> string \<Rightarrow> response" where
  "error_details c msg details = Response c (ErrorBody msg (Some details))"

definition json :: "body \<Rightarrow> response" where
  "json b = Response 200 b"

text \<open>\<^verbatim>\<open>!x\<close> on an optional string: undefined and the empty string are falsy.\<close>

fun falsy :: "string option \<Rightarrow> bool" where
  "falsy None = True"
| "falsy (Some s) = (s = [])"

definition durable :: "env \<Rightarrow> bool" where
  "durable e = (MONGO_URI e \<noteq> [])"

definition genToken :: "string \<Rightarrow> token" where
  "genToken u = Token u"

section \<open>Auth routes\<close>

record register_req =
  req_username :: "string option"
  req_password :: "string option"
  req_passphrase :: "string option"

text \<open>\<^verbatim>\<open>User.findOne({ username })\<close>: the first document with that username.\<close>

definition findOne_username :: "string \<Rightarrow> User list \<Rightarrow> User option" where
  "findOne_username u us = find (\<lambda>d. username d = u) us"

text \<open>\<^verbatim>\<open>u.save()\<close> under the unique index on \<^verbatim>\<open>username\<close>.\<close>

definition save_user :: "User \<Rightarrow> User list \<Rightarrow> string + User list" where
  "save_user u us =
     (if findOne_username (username u) us \<noteq> None
      then Inl ''E11000 duplicate key error'' else Inr (us @ [u]))"

text \<open>\<^verbatim>\<open>Map.has\<close> and \<^verbatim>\<open>Map.set\<close> on the insertion-ordered map.\<close>

definition map_has :: "'k \<Rightarrow> ('k \<times> 'v) list \<Rightarrow> bool" where
  "map_has k m = (map_of m k \<noteq> None)"

fun map_set :: "'k \<Rightarrow> 'v \<Rightarrow> ('k \<times> 'v) list \<Rightarrow> ('k \<times> 'v) list" where
  "map_set k v [] = [(k, v)]"
| "map_set k v (p # ps) = (if fst p = k then (k, v) # ps else p # map_set k v ps)"

definition register :: "env \<Rightarrow> register_req \<Rightarrow> state \<Rightarrow> response \<times> state" where
  "register e req s =
     (if falsy (req_username req) \<or> falsy (req_password req) \<or> falsy (req_passphrase req)
      then (error 400 ''Missing fields'', s)
      else
        let u = the (req_username req); pw = the (req_password req);
            pp = the (req_passphrase req)
        in if durable e then
             (case findOne_username u (db_users s) of
                Some _ \<Rightarrow> (error 400 ''User exists'', s)
              | None \<Rightarrow>
                 (case hashPassword e pw of
                    Inl _ \<Rightarrow> (error 500 ''Server error'', s)
                  | Inr h \<Rightarrow>
                     (case save_user \<lparr> username = u, passwordHash = h, passphrase = pp,
                                        accounts = [] \<rparr> (db_users s) of
                        Inl _ \<Rightarrow> (error 500 ''Server error'', s)
                      | Inr us \<Rightarrow> (json (AuthOk (genToken u)), s\<lparr> db_users := us \<rparr>))))
           else
             (if map_has u (mem_users s) then (error 400 ''User exists'', s)
              else
                (case hashPassword e pw of
                   Inl _ \<Rightarrow> (error 500 ''Server error'', s)
                 | Inr h \<Rightarrow>
                    (json (AuthOk (genToken u)),
                     s\<lparr> mem_users := map_set u \<lparr> username = u, passwordHash = h,
                                                  passphrase = pp, accounts = [] \<rparr>
                                        (mem_users s) \<rparr>))))"

section \<open>Transactions (store and retrieve)\<close>

text \<open>
  \<^verbatim>\<open>Number(req.query.limit || 50)\<close>. The query parameter is absent (or empty), or a text
  that \<^verbatim>\<open>Number\<close> reads as the integer \<open>n\<close>; the text \<^verbatim>\<open>0\<close> is a non-empty string
  and so is not replaced by 50. Texts that read as a fraction or NaN are outside this model.
\<close>

fun limit_of :: "int option \<Rightarrow> int" where
  "limit_of None = 50"
| "limit_of (Some n) = n"

text \<open>\<^verbatim>\<open>xs.slice(0, n)\<close>: a negative end counts from the end of the array.\<close>

definition slice0 :: "int \<Rightarrow> 'a list \<Rightarrow> 'a list" where
  "slice0 n xs = (if n < 0 then take (nat (int (length xs) + n)) xs else take (nat n) xs)"

text \<open>
  \<^verbatim>\<open>.sort({ createdAt: -1 })\<close>: descending by \<^verbatim>\<open>createdAt\<close>, a missing value below
  every date.
\<close>

fun insert_desc :: "Transaction \<Rightarrow> Transaction list \<Rightarrow> Transaction list" where
  "insert_desc t [] = [t]"
| "insert_desc t (x # xs) =
     (if createdAt x < createdAt t then t # x # xs else x # insert_desc t xs)"

definition sort_createdAt_desc :: "Transaction list \<Rightarrow> Transaction list" where
  "sort_createdAt_desc ts = foldr insert_desc ts []"

text \<open>
  \<^verbatim>\<open>.limit(n)\<close> of the database: 0 is no limit, and a negative number limits like its
  absolute value.
\<close>

definition mongo_limit :: "int \<Rightarrow> 'a list \<Rightarrow> 'a list" where
  "mongo_limit n xs = (if n = 0 then xs else take (nat \<bar>n\<bar>) xs)"

definition transactions_get :: "env \<Rightarrow> string \<Rightarrow> int option \<Rightarrow> state \<Rightarrow> response \<times> state" where
  "transactions_get e acc qlimit s =
     (let limit = limit_of qlimit in
      if durable e then
        (json (TransactionsBody acc
           (mongo_limit limit
              (sort_createdAt_desc (filter (\<lambda>t. accountId t = Some acc) (db_txs s))))), s)
      else
        (json (TransactionsBody acc
           (slice0 limit (filter (\<lambda>t. accountId t = Some acc) (mem_txs s)))), s))"

text \<open>
  \<^verbatim>\<open>Transaction.create(doc)\<close>: the write may be rejected, which throws; otherwise the
  created document is the given one, with the schema default for a missing
  \<^verbatim>\<open>createdAt\<close>.
\<close>

definition Transaction_create :: "env \<Rightarrow> Transaction \<Rightarrow> string + Transaction" where
  "Transaction_create e doc =
     (case create_rejected e of
        Some m \<Rightarrow> Inl m
      | None \<Rightarrow>
         Inr (case createdAt doc of None \<Rightarrow> doc\<lparr> createdAt := Some (now e) \<rparr> | Some _ \<Rightarrow> doc))"

text \<open>
  The statement of the transfer handler that stores its document:
  \<^verbatim>\<open>if (MONGO_URI) await Transaction.create(txDoc); else memoryStore.txs.unshift(txDoc);\<close>
\<close>

definition store_tx :: "env \<Rightarrow> Transaction \<Rightarrow> state \<Rightarrow> string + state" where
  "store_tx e doc s =
     (if durable e then
        (case Transaction_create e doc of
           Inl m \<Rightarrow> Inl m
         | Inr created \<Rightarrow> Inr (s\<lparr> db_txs := db_txs s @ [created] \<rparr>))
      else Inr (s\<lparr> mem_txs := doc # mem_txs s \<rparr>))"

record transaction_req =
  q_accountId :: "string option"
  q_type :: "string option"
  q_tokenId :: "string option"
  q_amount :: "jsnum option"
  q_status :: "string option"
  q_transactionId :: "string option"
  q_metadata :: "string option"

definition transactions_post :: "env \<Rightarrow> transaction_req \<Rightarrow> state \<Rightarrow> response \<times> state" where
  "transactions_post e req s =
     (let tx = \<lparr> accountId = q_accountId req, type = q_type req, tokenId = q_tokenId req,
                 amount = q_amount req,
                 status = (case q_status req of None \<Rightarrow> ''PENDING'' | Some st \<Rightarrow> st),
                 transactionId = q_transactionId req, metadata = q_metadata req,
                 createdAt = Some (now e) \<rparr>
      in if durable e then
           (case Transaction_create e tx of
              Inl m \<Rightarrow> (error 500 ''Server error'', s)
            | Inr created \<Rightarrow>
               (json (TransactionCreated created), s\<lparr> db_txs := db_txs s @ [created] \<rparr>))
         else (json (TransactionCreated tx), s\<lparr> mem_txs := tx # mem_txs s \<rparr>))"

section \<open>HTS endpoints\<close>

text \<open>
  The client exists when both operator variables are set and parse; otherwise it is null
  (\<open>None\<close>).
\<close>

definition hederaClient :: "env \<Rightarrow> (AccountId \<times> PrivateKey) option" where
  "hederaClient e =
     (if HEDERA_OPERATOR_ID e \<noteq> [] \<and> HEDERA_OPERATOR_KEY e \<noteq> [] then
        (case accountIdFromString e (HEDERA_OPERATOR_ID e) of
           Inl _ \<Rightarrow> None
         | Inr a \<Rightarrow>
            (case privateKeyFromString e (HEDERA_OPERATOR_KEY e) of
               Inl _ \<Rightarrow> None
             | Inr k \<Rightarrow> Some (a, k)))
      else None)"

fun BigInt :: "jsnum \<Rightarrow> string + int" where
  "BigInt (Integral n) = Inr n"
| "BigInt (NonIntegral printed) =
     Inl (''The number '' @ printed @
          '' cannot be converted to a BigInt because it is not an integer'')"

subsection \<open>Token transfer\<close>

definition new_TransferTransaction :: TransferTransaction where
  "new_TransferTransaction =
     \<lparr> tokenTransfers = [], transactionMemo = None, frozen = False, signers = [] \<rparr>"

text \<open>
  \<^verbatim>\<open>Long.fromValue\<close> of a BigInt and \<^verbatim>\<open>Long.add\<close>: the value in two's complement
  on 64 bits.
\<close>

definition Long_fromValue :: "int \<Rightarrow> int" where
  "Long_fromValue n = (n + 2 ^ 63) mod 2 ^ 64 - 2 ^ 63"

definition Long_add :: "int \<Rightarrow> int \<Rightarrow> int" where
  "Long_add a b = Long_fromValue (a + b)"

text \<open>
  The loop of the SDK's \<^verbatim>\<open>addTokenTransfer\<close> over the legs: a leg of the same token
  and account takes the amount in addition; if there is none, a leg is appended.
\<close>

fun add_leg :: "TokenId \<Rightarrow> AccountId \<Rightarrow> int \<Rightarrow> (TokenId \<times> AccountId \<times> int) list
    \<Rightarrow> (TokenId \<times> AccountId \<times> int) list" where
  "add_leg t a v [] = [(t, a, v)]"
| "add_leg t a v ((t', a', v') # legs) =
     (if t' = t \<and> a' = a then (t', a', Long_add v' v) # legs
      else (t', a', v') # add_leg t a v legs)"

text \<open>
  \<^verbatim>\<open>addTokenTransfer(tokenId, account, amount)\<close> of the SDK, called with the token id as
  a string, an account id and a BigInt: the token id is parsed (which throws on a text that
  is none), the amount becomes a \<^verbatim>\<open>Long\<close>, and the leg is added.
\<close>

definition addTokenTransfer ::
  "env \<Rightarrow> string \<Rightarrow> AccountId \<Rightarrow> int \<Rightarrow> TransferTransaction \<Rightarrow> string + TransferTransaction" where
  "addTokenTransfer e tok acc n tx =
     (case tokenIdFromString e tok of
        Inl m \<Rightarrow> Inl m
      | Inr t \<Rightarrow> Inr (tx\<lparr> tokenTransfers := add_leg t acc (Long_fromValue n) (tokenTransfers tx) \<rparr>))"

definition setTransactionMemo :: "string \<Rightarrow> TransferTransaction \<Rightarrow> TransferTransaction" where
  "setTransactionMemo m tx = tx\<lparr> transactionMemo := Some m \<rparr>"

definition freezeWith_sign :: "PrivateKey \<Rightarrow> TransferTransaction \<Rightarrow> TransferTransaction" where
  "freezeWith_sign k tx = tx\<lparr> frozen := True, signers := signers tx @ [k] \<rparr>"

text \<open>
  The construction of \<^verbatim>\<open>transferTx\<close>; the arguments of a call are evaluated in the
  order of the text before the call is made, and the first step that throws ends the
  construction.
\<close>

definition transferTx :: "env \<Rightarrow> string \<Rightarrow> string \<Rightarrow> string \<Rightarrow> jsnum \<Rightarrow> string + TransferTransaction" where
  "transferTx e tok from to amt =
     (case accountIdFromString e from of
        Inl m \<Rightarrow> Inl m
      | Inr fa \<Rightarrow>
         (case BigInt amt of
            Inl m \<Rightarrow> Inl m
          | Inr debit \<Rightarrow>
             (case addTokenTransfer e tok fa (- debit) new_TransferTransaction of
                Inl m \<Rightarrow> Inl m
              | Inr tx1 \<Rightarrow>
                 (case accountIdFromString e to of
                    Inl m \<Rightarrow> Inl m
                  | Inr ta \<Rightarrow>
                     (case BigInt amt of
                        Inl m \<Rightarrow> Inl m
                      | Inr credit \<Rightarrow>
                         (case addTokenTransfer e tok ta credit tx1 of
                            Inl m \<Rightarrow> Inl m
                          | Inr tx2 \<Rightarrow>
                             Inr (setTransactionMemo ''ArthurDex token transfer'' tx2)))))))"

record transfer_req =
  tr_tokenId :: "string option"
  fromAccountId :: "string option"
  fromPrivateKey :: "string option"
  toAccountId :: "string option"
  tr_amount :: "jsnum option"

text \<open>
  The handler up to the call of \<^verbatim>\<open>execute\<close>: the guards, the construction and the
  signature. \<open>Inl\<close> is the response of a request that ends here, \<open>Inr\<close> the signed
  transaction.
\<close>

definition transfer_prepare :: "env \<Rightarrow> transfer_req \<Rightarrow> response + ledger_tx" where
  "transfer_prepare e req =
     (case hederaClient e of
        None \<Rightarrow> Inl (error 500 ''Hedera client not configured'')
      | Some client \<Rightarrow>
         if falsy (tr_tokenId req) \<or> falsy (fromAccountId req) \<or> falsy (toAccountId req)
            \<or> tr_amount req = None
         then Inl (error 400 ''Missing fields'')
         else
           (case transferTx e (the (tr_tokenId req)) (the (fromAccountId req))
                   (the (toAccountId req)) (the (tr_amount req)) of
              Inl m \<Rightarrow> Inl (error_details 500 ''Transfer failed'' m)
            | Inr tx \<Rightarrow>
               if \<not> falsy (fromPrivateKey req) then
                 (case privateKeyFromString e (the (fromPrivateKey req)) of
                    Inl m \<Rightarrow> Inl (error_details 500 ''Transfer failed'' m)
                  | Inr senderKey \<Rightarrow> Inr (Transfer (freezeWith_sign senderKey tx)))
               else
                 Inl (error 400 ''fromPrivateKey required for server-side transfer. Use client-side signing for non-custodial flows.'')))"

text \<open>The document the handler stores after a receipt.\<close>

definition txDoc :: "transfer_req \<Rightarrow> TransactionResponse \<Rightarrow> TransactionReceipt \<Rightarrow> Transaction" where
  "txDoc req resp receipt =
     \<lparr> accountId = fromAccountId req, type = Some ''TRANSFER'', tokenId = tr_tokenId req,
       amount = tr_amount req, status = receipt_status receipt,
       transactionId = Some (resp_transactionId resp), metadata = None, createdAt = None \<rparr>"

definition transfer :: "env \<Rightarrow> transfer_req \<Rightarrow> state \<Rightarrow> response \<times> state" where
  "transfer e req s =
     (case transfer_prepare e req of
        Inl r \<Rightarrow> (r, s)
      | Inr signed \<Rightarrow>
         let s1 = s\<lparr> ledger_log := ledger_log s @ [Execute signed] \<rparr>
         in (case execute e signed of
               Inl m \<Rightarrow> (error_details 500 ''Transfer failed'' m, s1)
             | Inr resp \<Rightarrow>
                let s2 = s1\<lparr> ledger_log := ledger_log s1 @ [GetReceipt resp] \<rparr>
                in (case getReceipt e resp of
                      Inl m \<Rightarrow> (error_details 500 ''Transfer failed'' m, s2)
                    | Inr receipt \<Rightarrow>
                       (case store_tx e (txDoc req resp receipt) s2 of
                          Inl m \<Rightarrow> (error_details 500 ''Transfer failed'' m, s2)
                        | Inr s3 \<Rightarrow>
                           (json (TransferOk (resp_transactionId resp)
                                    (receipt_status receipt)), s3)))))"

subsection \<open>Token creation\<close>

record token_create_req =
  tc_name :: "string option"
  tc_symbol :: "string option"
  tc_decimals :: "jsnum option"
  tc_initialSupply :: "jsnum option"
  tc_treasuryAccountId :: "string option"

text \<open>A destructuring default \<^verbatim>\<open>x = 0\<close> applies when the field is undefined.\<close>

fun default0 :: "jsnum option \<Rightarrow> jsnum" where
  "default0 None = Integral 0"
| "default0 (Some n) = n"

text \<open>
  The construction of \<^verbatim>\<open>tokenCreate\<close>, from the treasury to the last setter;
  \<^verbatim>\<open>Number(decimals)\<close> hands the number on as it is.
\<close>

definition tokenCreateTx :: "env \<Rightarrow> token_create_req \<Rightarrow> string + TokenCreateTransaction" where
  "tokenCreateTx e req =
     (let decimals0 = default0 (tc_decimals req);
          initialSupply0 = default0 (tc_initialSupply req)
      in case (if \<not> falsy (tc_treasuryAccountId req)
               then accountIdFromString e (the (tc_treasuryAccountId req))
               else accountIdFromString e (HEDERA_OPERATOR_ID e)) of
           Inl m \<Rightarrow> Inl m
         | Inr treasury \<Rightarrow>
            (case privateKeyFromString e (HEDERA_OPERATOR_KEY e) of
               Inl m \<Rightarrow> Inl m
             | Inr k1 \<Rightarrow>
                (case privateKeyFromString e (HEDERA_OPERATOR_KEY e) of
                   Inl m \<Rightarrow> Inl m
                 | Inr k2 \<Rightarrow>
                    (case BigInt initialSupply0 of
                       Inl m \<Rightarrow> Inl m
                     | Inr supply \<Rightarrow>
                        Inr \<lparr> tokenName = the (tc_name req), tokenSymbol = the (tc_symbol req),
                              decimals = decimals0, initialSupply = supply,
                              treasuryAccountId = treasury, tokenType = FungibleCommon,
                              supplyType = Infinite, adminKey = publicKey e k1,
                              supplyKey = publicKey e k2 \<rparr>))))"

definition token_create :: "env \<Rightarrow> token_create_req \<Rightarrow> state \<Rightarrow> response \<times> state" where
  "token_create e req s =
     (case hederaClient e of
        None \<Rightarrow> (error 500 ''Hedera client not configured on server'', s)
      | Some client \<Rightarrow>
         if falsy (tc_name req) \<or> falsy (tc_symbol req)
         then (error 400 ''Missing name or symbol'', s)
         else
           (case tokenCreateTx e req of
              Inl m \<Rightarrow> (error_details 500 ''Token creation failed'' m, s)
            | Inr tx \<Rightarrow>
               let s1 = s\<lparr> ledger_log := ledger_log s @ [Execute (TokenCreate tx)] \<rparr>
               in (case execute e (TokenCreate tx) of
                     Inl m \<Rightarrow> (error_details 500 ''Token creation failed'' m, s1)
                   | Inr resp \<Rightarrow>
                      let s2 = s1\<lparr> ledger_log := ledger_log s1 @ [GetReceipt resp] \<rparr>
                      in (case getReceipt e resp of
                            Inl m \<Rightarrow> (error_details 500 ''Token creation failed'' m, s2)
                          | Inr receipt \<Rightarrow>
                             (json (TokenCreateOk (receipt_tokenId receipt)
                                      (receipt_status receipt)), s2)))))"

section \<open>Prices\<close>

text \<open>
  The object that \<^verbatim>\<open>r.json()\<close> builds from the members of the text: a key occurs once,
  at the place of its first occurrence and with its last value. \<^verbatim>\<open>Object.entries\<close>
  lists it (the reordering of integer-like keys is not modelled).
\<close>

definition json_object :: "('k \<times> 'v) list \<Rightarrow> ('k \<times> 'v) list" where
  "json_object members = fold (\<lambda>(k, v) obj. map_set k v obj) members []"

datatype fetched =
    Fetched_ok "Price list"
  | Fetched_not_ok nat string
  | Fetched_error string

definition fetchCoinGecko :: "env \<Rightarrow> fetched" where
  "fetchCoinGecko e =
     (case fetch e of
        TransportError m \<Rightarrow> Fetched_error m
      | NotOk st txt \<Rightarrow> Fetched_not_ok st txt
      | BadJson m \<Rightarrow> Fetched_error m
      | OkJson members \<Rightarrow>
         Fetched_ok (map (\<lambda>(c, d). \<lparr> coinId = c, usd = quote_usd d,
                            change_24h = (case usd_24h_change d of None \<Rightarrow> 0 | Some x \<Rightarrow> x),
                            updatedAt = now e \<rparr>)
                       (json_object members)))"

text \<open>
  \<^verbatim>\<open>Price.findOneAndUpdate({ coinId }, { ...p, updatedAt }, { upsert: true })\<close>: the first
  document with that \<^verbatim>\<open>coinId\<close> takes the new fields; if there is none, a document is
  inserted.
\<close>

fun findOneAndUpdate_upsert :: "Price \<Rightarrow> Price list \<Rightarrow> Price list" where
  "findOneAndUpdate_upsert p [] = [p]"
| "findOneAndUpdate_upsert p (d # ds) =
     (if coinId d = coinId p then p # ds else d # findOneAndUpdate_upsert p ds)"

definition priceUpdaterOnce :: "env \<Rightarrow> state \<Rightarrow> state" where
  "priceUpdaterOnce e s =
     (case fetchCoinGecko e of
        Fetched_ok data \<Rightarrow>
          if durable e then
            s\<lparr> db_prices :=
                 fold (\<lambda>p ds. findOneAndUpdate_upsert (p\<lparr> updatedAt := now e \<rparr>) ds) data
                   (db_prices s) \<rparr>
          else s\<lparr> mem_prices := Some data \<rparr>
      | Fetched_not_ok st txt \<Rightarrow> s
      | Fetched_error m \<Rightarrow> s)"

definition prices_get :: "env \<Rightarrow> state \<Rightarrow> response \<times> state" where
  "prices_get e s =
     (if durable e then (json (PricesBody (db_prices s)), s)
      else
        (case fetchCoinGecko e of
           Fetched_ok data \<Rightarrow> (json (PricesBody data), s)
         | Fetched_not_ok st txt \<Rightarrow> (error 502 ''Coingecko fetch failed'', s)
         | Fetched_error m \<Rightarrow> (error 502 ''Coingecko fetch failed'', s)))"

section \<open>A stubbed environment\<close>

text \<open>
  A memory-mode server whose ledger accepts every transaction with receipt status
  \<^verbatim>\<open>SUCCESS\<close> and whose oracle quotes one coin; the variants change one answer each.
\<close>

definition stub_env :: env where
  "stub_env =
     \<lparr> MONGO_URI = [], HEDERA_OPERATOR_ID = ''0.0.2'', HEDERA_OPERATOR_KEY = ''302e'',
       accountIdFromString = (\<lambda>x. if x = [] then Inl ''invalid account id'' else Inr (AccountId x)),
       tokenIdFromString = (\<lambda>x. if x = [] then Inl ''invalid token id'' else Inr (TokenId x)),
       privateKeyFromString = (\<lambda>x. if x = [] then Inl ''invalid key'' else Inr (PrivateKey x)),
       publicKey = (\<lambda>k. case k of PrivateKey x \<Rightarrow> PublicKey x),
       execute = (\<lambda>tx. Inr \<lparr> resp_transactionId = ''0.0.1@123'' \<rparr>),
       getReceipt = (\<lambda>r. Inr \<lparr> receipt_status = ''SUCCESS'', receipt_tokenId = None \<rparr>),
       hashPassword = (\<lambda>pw. Inr (''$2a$12$'' @ pw)),
       fetch = OkJson [(''x'', \<lparr> quote_usd = Some (123 / 100), usd_24h_change = None \<rparr>)],
       create_rejected = None, now = 1000 \<rparr>"

definition durable_env :: env where
  "durable_env = stub_env\<lparr> MONGO_URI := ''mongodb://db'' \<rparr>"

definition receipt_timeout_env :: env where
  "receipt_timeout_env = stub_env\<lparr> getReceipt := (\<lambda>r. Inl ''timeout'') \<rparr>"

definition execute_fails_env :: env where
  "execute_fails_env = stub_env\<lparr> execute := (\<lambda>tx. Inl ''timeout'') \<rparr>"

definition no_operator_env :: env where
  "no_operator_env = stub_env\<lparr> HEDERA_OPERATOR_ID := [] \<rparr>"

definition oracle_down_env :: env where
  "oracle_down_env = stub_env\<lparr> fetch := NotOk 503 ''unavailable'' \<rparr>"

definition transfer_10 :: transfer_req where
  "transfer_10 =
     \<lparr> tr_tokenId = Some ''0.0.100'', fromAccountId = Some ''0.0.1'',
       fromPrivateKey = Some ''key'', toAccountId = Some ''0.0.2'',
       tr_amount = Some (Integral 10) \<rparr>"

definition signed_transfer_10 :: TransferTransaction where
  "signed_transfer_10 =
     \<lparr> tokenTransfers = [(TokenId ''0.0.100'', AccountId ''0.0.1'', - 10),
                         (TokenId ''0.0.100'', AccountId ''0.0.2'', 10)],
       transactionMemo = Some ''ArthurDex token transfer'', frozen = True,
       signers = [PrivateKey ''key''] \<rparr>"

definition alice :: register_req where
  "alice = \<lparr> req_username = Some ''alice'', req_password = Some ''pw123'',
             req_passphrase = Some ''passphraseA'' \<rparr>"

definition durable_down_env :: env where
  "durable_down_env = durable_env\<lparr> fetch := NotOk 503 ''unavailable'' \<rparr>"

definition write_rejected_env :: env where
  "write_rejected_env = durable_env\<lparr> create_rejected := Some ''write rejected'' \<rparr>"

definition later_env :: env where
  "later_env = durable_env\<lparr> now := 2000 \<rparr>"

definition transfer_2_63 :: transfer_req where
  "transfer_2_63 = transfer_10\<lparr> tr_amount := Some (Integral 9223372036854775808) \<rparr>"

definition transfer_to_self :: transfer_req where
  "transfer_to_self = transfer_10\<lparr> toAccountId := Some ''0.0.1'' \<rparr>"

definition create_gold :: token_create_req where
  "create_gold = \<lparr> tc_name = Some ''Gold'', tc_symbol = Some ''GLD'', tc_decimals = None,
                   tc_initialSupply = None, tc_treasuryAccountId = None \<rparr>"

definition gold_tx :: TokenCreateTransaction where
  "gold_tx = \<lparr> tokenName = ''Gold'', tokenSymbol = ''GLD'', decimals = Integral 0,
               initialSupply = 0, treasuryAccountId = AccountId ''0.0.2'',
               tokenType = FungibleCommon, supplyType = Infinite,
               adminKey = PublicKey ''302e'', supplyKey = PublicKey ''302e'' \<rparr>"

definition snapshot_x :: Price where
  "snapshot_x = \<lparr> coinId = ''x'', usd = Some (123 / 100), change_24h = 0, updatedAt = 1000 \<rparr>"

definition tx_old :: Transaction where
  "tx_old = \<lparr> accountId = Some ''0.0.1'', type = Some ''TRANSFER'', tokenId = Some ''0.0.100'',
              amount = Some (Integral 1), status = ''SUCCESS'',
              transactionId = Some ''0.0.1@1'', metadata = None, createdAt = None \<rparr>"

definition tx_new :: Transaction where
  "tx_new = \<lparr> accountId = Some ''0.0.1'', type = Some ''TRANSFER'', tokenId = Some ''0.0.100'',
              amount = Some (Integral 2), status = ''SUCCESS'',
              transactionId = Some ''0.0.1@2'', metadata = None, createdAt = None \<rparr>"

definition signed_transfer_2_63 :: TransferTransaction where
  "signed_transfer_2_63 =
     \<lparr> tokenTransfers = [(TokenId ''0.0.100'', AccountId ''0.0.1'', - 9223372036854775808),
                         (TokenId ''0.0.100'', AccountId ''0.0.2'', - 9223372036854775808)],
       transactionMemo = Some ''ArthurDex token transfer'', frozen = True,
       signers = [PrivateKey ''key''] \<rparr>"

definition signed_transfer_to_self :: TransferTransaction where
  "signed_transfer_to_self =
     \<lparr> tokenTransfers = [(TokenId ''0.0.100'', AccountId ''0.0.1'', 0)],
       transactionMemo = Some ''ArthurDex token transfer'', frozen = True,
       signers = [PrivateKey ''key''] \<rparr>"

definition one_doc_db :: state where
  "one_doc_db = init_state\<lparr> db_txs := [tx_old\<lparr> createdAt := Some 1000 \<rparr>] \<rparr>"

definition two_docs_db :: state where
  "two_docs_db =
     init_state\<lparr> db_txs := [tx_old\<lparr> createdAt := Some 1000 \<rparr>,
                              tx_new\<lparr> createdAt := Some 2000 \<rparr>] \<rparr>"

definition two_docs_mem :: state where
  "two_docs_mem = init_state\<lparr> mem_txs := [tx_new, tx_old] \<rparr>"

section \<open>Notions used by the properties\<close>

text \<open>The snapshot set of the backend in use.\<close>

definition live_prices :: "env \<Rightarrow> state \<Rightarrow> Price list" where
  "live_prices e s =
     (if durable e then db_prices s else (case mem_prices s of None \<Rightarrow> [] | Some ps \<Rightarrow> ps))"

text \<open>Descending by \<^verbatim>\<open>createdAt\<close>.\<close>

definition newest_first :: "Transaction list \<Rightarrow> bool" where
  "newest_first ts = sorted_wrt (\<lambda>a b. createdAt b \<le> createdAt a) ts"

text \<open>The oracle did not deliver: every answer but a parsed JSON body.\<close>

fun oracle_failed :: "http_result \<Rightarrow> bool" where
  "oracle_failed (OkJson members) = False"
| "oracle_failed _ = True"

text \<open>A user record with this username is in the backend in use.\<close>

definition user_registered :: "env \<Rightarrow> string \<Rightarrow> state \<Rightarrow> bool" where
  "user_registered e u s =
     (if durable e then u \<in> username ` set (db_users s) else u \<in> fst ` set (mem_users s))"

section \<open>Evaluation of the stubbed environment\<close>

lemma transfer_10_fields:
  "tr_tokenId transfer_10 = Some ''0.0.100''" "fromAccountId transfer_10 = Some ''0.0.1''"
  "fromPrivateKey transfer_10 = Some ''key''" "toAccountId transfer_10 = Some ''0.0.2''"
  "tr_amount transfer_10 = Some (Integral 10)"
  by (simp_all add: transfer_10_def)

lemma init_state_fields:
  "db_users init_state = []" "db_txs init_state = []" "db_prices init_state = []"
  "mem_users init_state = []" "mem_txs init_state = []" "mem_prices init_state = None"
  "ledger_log init_state = []"
  by (simp_all add: init_state_def)

lemma stub_client: "hederaClient stub_env = Some (AccountId ''0.0.2'', PrivateKey ''302e'')"
  by (simp add: hederaClient_def stub_env_def)

lemma stub_memory: "\<not> durable stub_env"
  by (simp add: durable_def stub_env_def)

lemma durable_env_durable: "durable durable_env"
  by (simp add: durable_def durable_env_def)

lemma Long_fromValue_in_range:
  "- (2 ^ 63) \<le> n \<Longrightarrow> n < 2 ^ 63 \<Longrightarrow> Long_fromValue n = n"
  by (simp add: Long_fromValue_def)

lemma Long_fromValue_2_63: "Long_fromValue 9223372036854775808 = - 9223372036854775808"
  by (simp add: Long_fromValue_def)

lemma Long_add_10: "Long_add (- 10) 10 = 0"
  by (simp add: Long_add_def Long_fromValue_def)

lemma transferTx_10:
  "transferTx stub_env ''0.0.100'' ''0.0.1'' ''0.0.2'' (Integral 10) =
     Inr \<lparr> tokenTransfers = [(TokenId ''0.0.100'', AccountId ''0.0.1'', - 10),
                              (TokenId ''0.0.100'', AccountId ''0.0.2'', 10)],
            transactionMemo = Some ''ArthurDex token transfer'', frozen = False,
            signers = [] \<rparr>"
  by (simp add: transferTx_def stub_env_def addTokenTransfer_def setTransactionMemo_def
      new_TransferTransaction_def Long_fromValue_in_range)

lemma transferTx_2_63:
  "transferTx stub_env ''0.0.100'' ''0.0.1'' ''0.0.2'' (Integral 9223372036854775808) =
     Inr \<lparr> tokenTransfers = [(TokenId ''0.0.100'', AccountId ''0.0.1'', - 9223372036854775808),
                              (TokenId ''0.0.100'', AccountId ''0.0.2'', - 9223372036854775808)],
            transactionMemo = Some ''ArthurDex token transfer'', frozen = False,
            signers = [] \<rparr>"
  by (simp add: transferTx_def stub_env_def addTokenTransfer_def setTransactionMemo_def
      new_TransferTransaction_def Long_fromValue_in_range Long_fromValue_2_63)

lemma transferTx_self:
  "transferTx stub_env ''0.0.100'' ''0.0.1'' ''0.0.1'' (Integral 10) =
     Inr \<lparr> tokenTransfers = [(TokenId ''0.0.100'', AccountId ''0.0.1'', 0)],
            transactionMemo = Some ''ArthurDex token transfer'', frozen = False,
            signers = [] \<rparr>"
  by (simp add: transferTx_def stub_env_def addTokenTransfer_def setTransactionMemo_def
      new_TransferTransaction_def Long_fromValue_in_range Long_add_10)

lemma transfer_prepare_execute_irrelevant:
  "transfer_prepare (e\<lparr> execute := f \<rparr>) req = transfer_prepare e req"
  by (simp add: transfer_prepare_def hederaClient_def transferTx_def addTokenTransfer_def
      cong: sum.case_cong option.case_cong if_cong)

lemma transfer_prepare_getReceipt_irrelevant:
  "transfer_prepare (e\<lparr> getReceipt := g \<rparr>) req = transfer_prepare e req"
  by (simp add: transfer_prepare_def hederaClient_def transferTx_def addTokenTransfer_def
      cong: sum.case_cong option.case_cong if_cong)

lemma transfer_prepare_MONGO_URI_irrelevant:
  "transfer_prepare (e\<lparr> MONGO_URI := u \<rparr>) req = transfer_prepare e req"
  by (simp add: transfer_prepare_def hederaClient_def transferTx_def addTokenTransfer_def
      cong: sum.case_cong option.case_cong if_cong)

lemma transfer_prepare_create_rejected_irrelevant:
  "transfer_prepare (e\<lparr> create_rejected := c \<rparr>) req = transfer_prepare e req"
  by (simp add: transfer_prepare_def hederaClient_def transferTx_def addTokenTransfer_def
      cong: sum.case_cong option.case_cong if_cong)

lemma prepare_10: "transfer_prepare stub_env transfer_10 = Inr (Transfer signed_transfer_10)"
  by (simp add: transfer_prepare_def stub_client transfer_10_def transferTx_10)
     (simp add: stub_env_def signed_transfer_10_def freezeWith_sign_def)

lemma prepare_10_timeout:
  "transfer_prepare receipt_timeout_env transfer_10 = Inr (Transfer signed_transfer_10)"
  unfolding receipt_timeout_env_def
  by (simp add: transfer_prepare_getReceipt_irrelevant prepare_10)

lemma prepare_10_execute_fails:
  "transfer_prepare execute_fails_env transfer_10 = Inr (Transfer signed_transfer_10)"
  unfolding execute_fails_env_def
  by (simp add: transfer_prepare_execute_irrelevant prepare_10)

lemma prepare_10_durable:
  "transfer_prepare durable_env transfer_10 = Inr (Transfer signed_transfer_10)"
  unfolding durable_env_def
  by (simp add: transfer_prepare_MONGO_URI_irrelevant prepare_10)

lemma prepare_10_write_rejected:
  "transfer_prepare write_rejected_env transfer_10 = Inr (Transfer signed_transfer_10)"
  unfolding write_rejected_env_def
  by (simp add: transfer_prepare_create_rejected_irrelevant prepare_10_durable)

lemma stub_ledger:
  "execute stub_env tx = Inr \<lparr> resp_transactionId = ''0.0.1@123'' \<rparr>"
  "getReceipt stub_env r = Inr \<lparr> receipt_status = ''SUCCESS'', receipt_tokenId = None \<rparr>"
  by (simp_all add: stub_env_def)

lemma durable_ledger:
  "execute durable_env tx = Inr \<lparr> resp_transactionId = ''0.0.1@123'' \<rparr>"
  "getReceipt durable_env r = Inr \<lparr> receipt_status = ''SUCCESS'', receipt_tokenId = None \<rparr>"
  "create_rejected durable_env = None" "now durable_env = 1000"
  by (simp_all add: durable_env_def stub_env_def)

lemma write_rejected_ledger:
  "execute write_rejected_env tx = Inr \<lparr> resp_transactionId = ''0.0.1@123'' \<rparr>"
  "getReceipt write_rejected_env r = Inr \<lparr> receipt_status = ''SUCCESS'', receipt_tokenId = None \<rparr>"
  "create_rejected write_rejected_env = Some ''write rejected''"
  "durable write_rejected_env"
  by (simp_all add: write_rejected_env_def durable_env_def stub_env_def durable_def)

lemma receipt_timeout_ledger:
  "execute receipt_timeout_env tx = Inr \<lparr> resp_transactionId = ''0.0.1@123'' \<rparr>"
  "getReceipt receipt_timeout_env r = Inl ''timeout''"
  "\<not> durable receipt_timeout_env"
  by (simp_all add: receipt_timeout_env_def stub_env_def durable_def)

lemma transfer_10_stub:
  "transfer stub_env transfer_10 init_state =
     (json (TransferOk ''0.0.1@123'' ''SUCCESS''),
      init_state\<lparr> ledger_log := [Execute (Transfer signed_transfer_10),
                                    GetReceipt \<lparr> resp_transactionId = ''0.0.1@123'' \<rparr>],
                   mem_txs := [\<lparr> accountId = Some ''0.0.1'', type = Some ''TRANSFER'',
                                  tokenId = Some ''0.0.100'', amount = Some (Integral 10),
                                  status = ''SUCCESS'', transactionId = Some ''0.0.1@123'',
                                  metadata = None, createdAt = None \<rparr>] \<rparr>)"
  by (simp add: transfer_def prepare_10 stub_ledger Let_def store_tx_def stub_memory txDoc_def
      transfer_10_fields)
     (simp add: init_state_def)

lemma register_alice_stub:
  "register stub_env alice init_state =
     (json (AuthOk (Token ''alice'')),
      init_state\<lparr> mem_users := [(''alice'', \<lparr> username = ''alice'',
                      passwordHash = ''$2a$12$pw123'', passphrase = ''passphraseA'',
                      accounts = [] \<rparr>)] \<rparr>)"
  by (simp add: register_def alice_def stub_memory map_has_def init_state_def genToken_def
        Let_def)
     (simp add: stub_env_def genToken_def)

lemma register_alice_durable:
  "register durable_env alice init_state =
     (json (AuthOk (Token ''alice'')),
      init_state\<lparr> db_users := [\<lparr> username = ''alice'', passwordHash = ''$2a$12$pw123'',
                      passphrase = ''passphraseA'', accounts = [] \<rparr>] \<rparr>)"
  by (simp add: register_def alice_def durable_env_durable findOne_username_def save_user_def
        init_state_def genToken_def Let_def)
     (simp add: durable_env_def stub_env_def save_user_def findOne_username_def genToken_def)


section \<open>Registration\<close>

lemma findOne_username_Some:
  "u \<in> username ` set us \<Longrightarrow> \<exists>d. findOne_username u us = Some d"
  unfolding findOne_username_def by (induction us) auto

lemma map_has_iff: "map_has k m \<longleftrightarrow> k \<in> fst ` set m"
  unfolding map_has_def by (simp add: map_of_eq_None_iff)

lemma map_set_keys: "fst ` set (map_set k v m) = insert k (fst ` set m)"
  by (induction m) auto

text \<open>A successful registration puts the user into the backend in use.\<close>

lemma register_success_registers:
  assumes "status_code (fst (register e req s)) = 200"
  shows "user_registered e (the (req_username req)) (snd (register e req s))"
proof (cases "falsy (req_username req) \<or> falsy (req_password req) \<or> falsy (req_passphrase req)")
  case True
  with assms show ?thesis by (simp add: register_def error_def)
next
  case False
  show ?thesis
  proof (cases "durable e")
    case True
    with False assms show ?thesis
      by (auto simp: register_def Let_def error_def json_def user_registered_def save_user_def
          split: option.splits sum.splits if_splits)
  next
    case F: False
    with False assms show ?thesis
      by (auto simp: register_def Let_def error_def json_def user_registered_def map_set_keys
          split: sum.splits if_splits)
  qed
qed

text \<open>No attempt on a username that is already there changes a store.\<close>

lemma register_existing_keeps_state:
  assumes "req_username req = Some u" and "user_registered e u s"
  shows "snd (register e req s) = s"
proof (cases "falsy (req_username req) \<or> falsy (req_password req) \<or> falsy (req_passphrase req)")
  case True
  then show ?thesis by (auto simp: register_def)
next
  case False
  show ?thesis
  proof (cases "durable e")
    case True
    with assms(2) obtain d where "findOne_username u (db_users s) = Some d"
      using findOne_username_Some by (auto simp: user_registered_def)
    with False True assms(1) show ?thesis by (simp add: register_def)
  next
    case F: False
    with assms(2) have "map_has u (mem_users s)"
      by (simp add: user_registered_def map_has_iff)
    with False F assms(1) show ?thesis by (simp add: register_def)
  qed
qed

text \<open>
  C8. If a user with the username is already in the backend in use, a second registration
  (a request with username, password and passphrase) with that username fails with the
  conflict error \<^verbatim>\<open>User exists\<close> (status 400) and leaves every store as it was: no
  user record is created or overwritten. This holds in the durable and in the memory
  backend alike.
\<close>

theorem register_conflict:
  assumes "req_username req = Some u" and "u \<noteq> []"
      and "\<not> falsy (req_password req)" and "\<not> falsy (req_passphrase req)"
      and "user_registered e u s"
  shows "register e req s = (error 400 ''User exists'', s)"
proof (cases "durable e")
  case True
  with assms(5) obtain d where "findOne_username u (db_users s) = Some d"
    using findOne_username_Some by (auto simp: user_registered_def)
  with True assms(1-4) show ?thesis by (simp add: register_def)
next
  case False
  with assms(5) have "map_has u (mem_users s)"
    by (simp add: user_registered_def map_has_iff)
  with False assms(1-4) show ?thesis by (simp add: register_def)
qed

text \<open>
  Registering \<^verbatim>\<open>alice\<close> twice, on the memory backend and on the durable backend: the
  second registration is refused and the stores stay as the first one left them.
\<close>

theorem register_conflict_witness:
  "req_username alice = Some ''alice'' \<and> ''alice'' \<noteq> []
   \<and> \<not> falsy (req_password alice) \<and> \<not> falsy (req_passphrase alice)
   \<and> user_registered stub_env ''alice'' (snd (register stub_env alice init_state))
   \<and> register stub_env alice (snd (register stub_env alice init_state)) =
       (Response 400 (ErrorBody ''User exists'' None), snd (register stub_env alice init_state))
   \<and> user_registered durable_env ''alice'' (snd (register durable_env alice init_state))
   \<and> register durable_env alice (snd (register durable_env alice init_state)) =
       (Response 400 (ErrorBody ''User exists'' None),
        snd (register durable_env alice init_state))"
proof -
  have h1: "req_username alice = Some ''alice''" by (simp add: alice_def)
  have h2: "''alice'' \<noteq> []" by simp
  have h3: "\<not> falsy (req_password alice)" by (simp add: alice_def)
  have h4: "\<not> falsy (req_passphrase alice)" by (simp add: alice_def)
  have m: "user_registered stub_env ''alice'' (snd (register stub_env alice init_state))"
    by (simp add: register_alice_stub user_registered_def stub_memory)
  have d: "user_registered durable_env ''alice'' (snd (register durable_env alice init_state))"
    by (simp add: register_alice_durable user_registered_def durable_env_durable)
  from register_conflict [OF h1 h2 h3 h4 m] register_conflict [OF h1 h2 h3 h4 d] h1 h3 h4 m d
  show ?thesis by (simp add: error_def)
qed


section \<open>Token transfer: the constructed transaction\<close>

lemma freezeWith_sign_legs: "tokenTransfers (freezeWith_sign k tx) = tokenTransfers tx"
  by (simp add: freezeWith_sign_def)

lemma transfer_prepare_Inr:
  assumes "transfer_prepare e req = Inr signed"
  shows "\<exists>tx0 k. transferTx e (the (tr_tokenId req)) (the (fromAccountId req))
                (the (toAccountId req)) (the (tr_amount req)) = Inr tx0
            \<and> privateKeyFromString e (the (fromPrivateKey req)) = Inr k
            \<and> \<not> falsy (fromPrivateKey req)
            \<and> signed = Transfer (freezeWith_sign k tx0)"
  using assms unfolding transfer_prepare_def
  by (simp split: option.splits sum.splits if_splits)

text \<open>
  Where the construction is balanced: the two accounts differ and the amount and its
  negation are 64-bit numbers. Then the transaction has the two legs of the text, which
  sum to zero.
\<close>

lemma transferTx_balanced_in_range:
  assumes "transferTx e tok from to (Integral n) = Inr tx"
      and "accountIdFromString e from = Inr fa" and "accountIdFromString e to = Inr ta"
      and "fa \<noteq> ta" and "- (2 ^ 63) < n" and "n < 2 ^ 63"
  shows "\<exists>t. tokenIdFromString e tok = Inr t \<and> tokenTransfers tx = [(t, fa, - n), (t, ta, n)]"
  using assms
  by (auto simp: transferTx_def addTokenTransfer_def setTransactionMemo_def
      new_TransferTransaction_def Long_fromValue_in_range split: sum.splits)

lemma prepare_2_63:
  "transfer_prepare stub_env transfer_2_63 = Inr (Transfer signed_transfer_2_63)"
  by (simp add: transfer_prepare_def stub_client transfer_2_63_def transfer_10_def
      transferTx_2_63)
     (simp add: stub_env_def signed_transfer_2_63_def freezeWith_sign_def)

lemma prepare_to_self:
  "transfer_prepare stub_env transfer_to_self = Inr (Transfer signed_transfer_to_self)"
  by (simp add: transfer_prepare_def stub_client transfer_to_self_def transfer_10_def
      transferTx_self)
     (simp add: stub_env_def signed_transfer_to_self_def freezeWith_sign_def)

text \<open>
  C4 fails on the code. The claim: every transfer the gateway constructs has exactly two
  token legs, the from-account debited by the amount and the to-account credited by it,
  summing to zero. At the amount \<open>2^63\<close> the handler submits a transaction whose two legs
  are both \<open>- 2^63\<close>, the credit having wrapped on 64 bits; and when the from-account is
  the to-account it submits a transaction with one leg, of amount 0. The handler checks
  neither the range of the amount nor that the accounts differ.
\<close>

theorem transfer_unbalanced:
  "tr_amount transfer_2_63 = Some (Integral (2 ^ 63))
   \<and> ledger_log (snd (transfer stub_env transfer_2_63 init_state)) =
       [Execute (Transfer signed_transfer_2_63),
        GetReceipt \<lparr> resp_transactionId = ''0.0.1@123'' \<rparr>]
   \<and> tokenTransfers signed_transfer_2_63 =
       [(TokenId ''0.0.100'', AccountId ''0.0.1'', - (2 ^ 63)),
        (TokenId ''0.0.100'', AccountId ''0.0.2'', - (2 ^ 63))]
   \<and> sum_list (map (\<lambda>(tok, acc, a). a) (tokenTransfers signed_transfer_2_63)) = - (2 ^ 64)
   \<and> fromAccountId transfer_to_self = toAccountId transfer_to_self
   \<and> ledger_log (snd (transfer stub_env transfer_to_self init_state)) =
       [Execute (Transfer signed_transfer_to_self),
        GetReceipt \<lparr> resp_transactionId = ''0.0.1@123'' \<rparr>]
   \<and> tokenTransfers signed_transfer_to_self = [(TokenId ''0.0.100'', AccountId ''0.0.1'', 0)]"
proof -
  have a: "ledger_log (snd (transfer stub_env transfer_2_63 init_state)) =
       [Execute (Transfer signed_transfer_2_63),
        GetReceipt \<lparr> resp_transactionId = ''0.0.1@123'' \<rparr>]"
    by (simp add: transfer_def prepare_2_63 stub_ledger Let_def store_tx_def stub_memory
        init_state_fields)
  have b: "ledger_log (snd (transfer stub_env transfer_to_self init_state)) =
       [Execute (Transfer signed_transfer_to_self),
        GetReceipt \<lparr> resp_transactionId = ''0.0.1@123'' \<rparr>]"
    by (simp add: transfer_def prepare_to_self stub_ledger Let_def store_tx_def stub_memory
        init_state_fields)
  show ?thesis
    by (simp add: a b)
       (simp add: transfer_2_63_def transfer_to_self_def transfer_10_def
          signed_transfer_2_63_def signed_transfer_to_self_def)
qed


section \<open>Token transfer: outcomes and the local record\<close>

text \<open>
  C1, as the claim states it, fails: when the receipt wait throws after a submission, the
  ledger has been called twice and no Transaction record is in either store.
\<close>

theorem transfer_no_record_counterexample:
  "ledger_log (snd (transfer receipt_timeout_env transfer_10 init_state)) =
     [Execute (Transfer signed_transfer_10), GetReceipt \<lparr> resp_transactionId = ''0.0.1@123'' \<rparr>]
   \<and> mem_txs (snd (transfer receipt_timeout_env transfer_10 init_state)) = []
   \<and> db_txs (snd (transfer receipt_timeout_env transfer_10 init_state)) = []"
  by (simp add: transfer_def prepare_10_timeout receipt_timeout_ledger Let_def
      init_state_fields)

text \<open>
  C1, amended. For a transfer request that reaches the submission: when \<^verbatim>\<open>execute\<close>,
  the receipt wait and the write to the backend in use all return, the response is the
  success response and, before it, the record with the receipt's status and the
  transaction id has been stored (appended with the default \<^verbatim>\<open>createdAt\<close> in the
  database, put at the front of \<^verbatim>\<open>memoryStore.txs\<close> otherwise); when one of them
  throws, the response is 500 \<^verbatim>\<open>Transfer failed\<close> with the message and no Transaction
  record is stored.
\<close>

theorem transfer_outcomes:
  assumes "transfer_prepare e req = Inr signed"
  shows "case execute e signed of
           Inl m \<Rightarrow>
             fst (transfer e req s) = error_details 500 ''Transfer failed'' m
             \<and> db_txs (snd (transfer e req s)) = db_txs s
             \<and> mem_txs (snd (transfer e req s)) = mem_txs s
         | Inr resp \<Rightarrow>
            (case getReceipt e resp of
               Inl m \<Rightarrow>
                 fst (transfer e req s) = error_details 500 ''Transfer failed'' m
                 \<and> db_txs (snd (transfer e req s)) = db_txs s
                 \<and> mem_txs (snd (transfer e req s)) = mem_txs s
             | Inr receipt \<Rightarrow>
                 (if durable e then
                    (case create_rejected e of
                       Some m \<Rightarrow>
                         fst (transfer e req s) = error_details 500 ''Transfer failed'' m
                         \<and> db_txs (snd (transfer e req s)) = db_txs s
                         \<and> mem_txs (snd (transfer e req s)) = mem_txs s
                     | None \<Rightarrow>
                         fst (transfer e req s) =
                           json (TransferOk (resp_transactionId resp) (receipt_status receipt))
                         \<and> db_txs (snd (transfer e req s)) =
                             db_txs s @ [(txDoc req resp receipt)\<lparr> createdAt := Some (now e) \<rparr>]
                         \<and> mem_txs (snd (transfer e req s)) = mem_txs s)
                  else
                    fst (transfer e req s) =
                      json (TransferOk (resp_transactionId resp) (receipt_status receipt))
                    \<and> mem_txs (snd (transfer e req s)) = txDoc req resp receipt # mem_txs s
                    \<and> db_txs (snd (transfer e req s)) = db_txs s))"
  using assms unfolding transfer_def Let_def
  by (simp add: store_tx_def Transaction_create_def txDoc_def split: sum.splits option.splits)

text \<open>
  The four outcomes at one request: success on the memory backend, success on the durable
  backend, a rejected write on the durable backend, and a receipt wait that throws.
\<close>

theorem transfer_outcomes_witness:
  "transfer_prepare stub_env transfer_10 = Inr (Transfer signed_transfer_10)
   \<and> fst (transfer stub_env transfer_10 init_state) = json (TransferOk ''0.0.1@123'' ''SUCCESS'')
   \<and> mem_txs (snd (transfer stub_env transfer_10 init_state)) =
       [\<lparr> accountId = Some ''0.0.1'', type = Some ''TRANSFER'', tokenId = Some ''0.0.100'',
          amount = Some (Integral 10), status = ''SUCCESS'',
          transactionId = Some ''0.0.1@123'', metadata = None, createdAt = None \<rparr>]
   \<and> transfer_prepare durable_env transfer_10 = Inr (Transfer signed_transfer_10)
   \<and> fst (transfer durable_env transfer_10 init_state) =
       json (TransferOk ''0.0.1@123'' ''SUCCESS'')
   \<and> db_txs (snd (transfer durable_env transfer_10 init_state)) =
       [\<lparr> accountId = Some ''0.0.1'', type = Some ''TRANSFER'', tokenId = Some ''0.0.100'',
          amount = Some (Integral 10), status = ''SUCCESS'',
          transactionId = Some ''0.0.1@123'', metadata = None, createdAt = Some 1000 \<rparr>]
   \<and> transfer_prepare write_rejected_env transfer_10 = Inr (Transfer signed_transfer_10)
   \<and> fst (transfer write_rejected_env transfer_10 init_state) =
       error_details 500 ''Transfer failed'' ''write rejected''
   \<and> db_txs (snd (transfer write_rejected_env transfer_10 init_state)) = []
   \<and> transfer_prepare receipt_timeout_env transfer_10 = Inr (Transfer signed_transfer_10)
   \<and> fst (transfer receipt_timeout_env transfer_10 init_state) =
       error_details 500 ''Transfer failed'' ''timeout''
   \<and> mem_txs (snd (transfer receipt_timeout_env transfer_10 init_state)) = []"
proof -
  from transfer_outcomes [OF prepare_10, of init_state]
  have a: "fst (transfer stub_env transfer_10 init_state) =
             json (TransferOk ''0.0.1@123'' ''SUCCESS'')
           \<and> mem_txs (snd (transfer stub_env transfer_10 init_state)) =
             [\<lparr> accountId = Some ''0.0.1'', type = Some ''TRANSFER'',
                tokenId = Some ''0.0.100'', amount = Some (Integral 10), status = ''SUCCESS'',
                transactionId = Some ''0.0.1@123'', metadata = None, createdAt = None \<rparr>]"
    by (simp add: stub_ledger stub_memory txDoc_def transfer_10_fields init_state_fields)
  from transfer_outcomes [OF prepare_10_durable, of init_state]
  have b: "fst (transfer durable_env transfer_10 init_state) =
             json (TransferOk ''0.0.1@123'' ''SUCCESS'')
           \<and> db_txs (snd (transfer durable_env transfer_10 init_state)) =
             [\<lparr> accountId = Some ''0.0.1'', type = Some ''TRANSFER'',
                tokenId = Some ''0.0.100'', amount = Some (Integral 10), status = ''SUCCESS'',
                transactionId = Some ''0.0.1@123'', metadata = None, createdAt = Some 1000 \<rparr>]"
    by (simp add: durable_ledger durable_env_durable txDoc_def transfer_10_fields
        init_state_fields)
  from transfer_outcomes [OF prepare_10_write_rejected, of init_state]
  have c: "fst (transfer write_rejected_env transfer_10 init_state) =
             error_details 500 ''Transfer failed'' ''write rejected''
           \<and> db_txs (snd (transfer write_rejected_env transfer_10 init_state)) = []"
    by (simp add: write_rejected_ledger init_state_fields)
  from transfer_outcomes [OF prepare_10_timeout, of init_state]
  have d: "fst (transfer receipt_timeout_env transfer_10 init_state) =
             error_details 500 ''Transfer failed'' ''timeout''
           \<and> mem_txs (snd (transfer receipt_timeout_env transfer_10 init_state)) = []"
    by (simp add: receipt_timeout_ledger init_state_fields)
  from a b c d show ?thesis
    by (simp add: prepare_10 prepare_10_durable prepare_10_write_rejected prepare_10_timeout)
qed

text \<open>
  C2, as the claim states it, fails: a receipt wait that throws after a successful submission
  and a submission that itself throws get the very same response.
\<close>

theorem receipt_failure_counterexample:
  "fst (transfer receipt_timeout_env transfer_10 init_state) =
     error_details 500 ''Transfer failed'' ''timeout''
   \<and> fst (transfer execute_fails_env transfer_10 init_state) =
     error_details 500 ''Transfer failed'' ''timeout''"
  by (simp add: transfer_def prepare_10_timeout prepare_10_execute_fails Let_def)
     (simp add: receipt_timeout_env_def execute_fails_env_def stub_env_def)

text \<open>
  C2, amended. When the submission returns and the receipt wait throws with message \<open>m\<close>,
  the response is 500 \<^verbatim>\<open>Transfer failed\<close> with details \<open>m\<close>: it is not a success
  response, and it is the response the same request gets when the submission itself throws
  with message \<open>m\<close>.
\<close>

theorem receipt_failure_response:
  assumes "transfer_prepare e req = Inr signed" and "execute e signed = Inr resp"
      and "getReceipt e resp = Inl m"
  shows "fst (transfer e req s) = error_details 500 ''Transfer failed'' m
       \<and> status_code (fst (transfer e req s)) \<noteq> 200
       \<and> fst (transfer (e\<lparr> execute := (\<lambda>tx. Inl m) \<rparr>) req s) = fst (transfer e req s)"
  using assms
  by (simp add: transfer_def Let_def transfer_prepare_execute_irrelevant error_details_def)

theorem receipt_failure_response_witness:
  "transfer_prepare receipt_timeout_env transfer_10 = Inr (Transfer signed_transfer_10)
   \<and> execute receipt_timeout_env (Transfer signed_transfer_10) =
       Inr \<lparr> resp_transactionId = ''0.0.1@123'' \<rparr>
   \<and> getReceipt receipt_timeout_env \<lparr> resp_transactionId = ''0.0.1@123'' \<rparr> = Inl ''timeout''
   \<and> fst (transfer receipt_timeout_env transfer_10 init_state) =
       Response 500 (ErrorBody ''Transfer failed'' (Some ''timeout''))"
proof -
  have b: "execute receipt_timeout_env (Transfer signed_transfer_10) =
             Inr \<lparr> resp_transactionId = ''0.0.1@123'' \<rparr>"
    by (simp add: receipt_timeout_env_def stub_env_def)
  have c: "getReceipt receipt_timeout_env \<lparr> resp_transactionId = ''0.0.1@123'' \<rparr> = Inl ''timeout''"
    by (simp add: receipt_timeout_env_def stub_env_def)
  from receipt_failure_response [OF prepare_10_timeout b c, of init_state] b c
  show ?thesis by (simp add: prepare_10_timeout error_details_def)
qed


section \<open>Token transfer without the sender's key\<close>

lemma transfer_prepare_no_key:
  assumes "falsy (fromPrivateKey req)"
  shows "case transfer_prepare e req of
           Inr signed \<Rightarrow> False
         | Inl r \<Rightarrow>
            status_code r \<noteq> 200
            \<and> (hederaClient e = None \<longrightarrow> r = error 500 ''Hedera client not configured'')
            \<and> (hederaClient e \<noteq> None \<and>
                 (falsy (tr_tokenId req) \<or> falsy (fromAccountId req)
                   \<or> falsy (toAccountId req) \<or> tr_amount req = None)
                 \<longrightarrow> r = error 400 ''Missing fields'')
            \<and> (hederaClient e \<noteq> None \<and> \<not> falsy (tr_tokenId req)
                 \<and> \<not> falsy (fromAccountId req) \<and> \<not> falsy (toAccountId req)
                 \<and> tr_amount req \<noteq> None
                 \<and> (\<exists>tx. transferTx e (the (tr_tokenId req)) (the (fromAccountId req))
                        (the (toAccountId req)) (the (tr_amount req)) = Inr tx)
                 \<longrightarrow> status_code r = 400)"
  using assms unfolding transfer_prepare_def
  by (simp add: error_def error_details_def split: option.splits sum.splits)

text \<open>
  C3, as the claim states it, fails: on a server without a configured client the key-less
  request is answered 500 \<^verbatim>\<open>Hedera client not configured\<close>, which is not an
  invalid-request error.
\<close>

theorem transfer_without_key_counterexample:
  "fromPrivateKey (transfer_10\<lparr> fromPrivateKey := None \<rparr>) = None
   \<and> fst (transfer no_operator_env (transfer_10\<lparr> fromPrivateKey := None \<rparr>) init_state) =
       Response 500 (ErrorBody ''Hedera client not configured'' None)"
proof -
  have "hederaClient no_operator_env = None"
    by (simp add: hederaClient_def no_operator_env_def)
  then have a: "transfer_prepare no_operator_env (transfer_10\<lparr> fromPrivateKey := None \<rparr>) =
      Inl (Response 500 (ErrorBody ''Hedera client not configured'' None))"
    by (simp add: transfer_prepare_def error_def)
  show ?thesis by (simp add: transfer_def a)
qed

text \<open>
  C3, amended. A transfer request without \<^verbatim>\<open>fromPrivateKey\<close> is rejected and leaves
  every store as it was: no call reaches the ledger and no Transaction record is created.
  On a server without a configured client the error is 500
  \<^verbatim>\<open>Hedera client not configured\<close>. With a configured client the error is an
  invalid-request error (status 400) when a required field is missing and when the token
  id, the account ids and the amount are ones from which the transfer transaction is
  constructed.
\<close>

theorem transfer_without_key:
  assumes "falsy (fromPrivateKey req)"
  shows "snd (transfer e req s) = s
       \<and> status_code (fst (transfer e req s)) \<noteq> 200
       \<and> (hederaClient e = None \<longrightarrow>
            fst (transfer e req s) = error 500 ''Hedera client not configured'')
       \<and> (hederaClient e \<noteq> None \<and>
            (falsy (tr_tokenId req) \<or> falsy (fromAccountId req) \<or> falsy (toAccountId req)
              \<or> tr_amount req = None) \<longrightarrow>
            fst (transfer e req s) = error 400 ''Missing fields'')
       \<and> (hederaClient e \<noteq> None \<and> \<not> falsy (tr_tokenId req) \<and> \<not> falsy (fromAccountId req)
            \<and> \<not> falsy (toAccountId req) \<and> tr_amount req \<noteq> None
            \<and> (\<exists>tx. transferTx e (the (tr_tokenId req)) (the (fromAccountId req))
                   (the (toAccountId req)) (the (tr_amount req)) = Inr tx)
          \<longrightarrow> status_code (fst (transfer e req s)) = 400)"
proof (cases "transfer_prepare e req")
  case (Inl r)
  then have t: "transfer e req s = (r, s)" by (simp add: transfer_def)
  from transfer_prepare_no_key [OF assms, of e] Inl show ?thesis
    unfolding t by simp
next
  case (Inr signed)
  with transfer_prepare_no_key [OF assms, of e] show ?thesis by simp
qed

text \<open>
  A key-less request on the stubbed server, one with the token id missing as well, and
  one on a server without a client.
\<close>

theorem transfer_without_key_witness:
  "falsy (fromPrivateKey (transfer_10\<lparr> fromPrivateKey := None \<rparr>))
   \<and> hederaClient stub_env \<noteq> None
   \<and> snd (transfer stub_env (transfer_10\<lparr> fromPrivateKey := None \<rparr>) init_state) = init_state
   \<and> status_code (fst (transfer stub_env (transfer_10\<lparr> fromPrivateKey := None \<rparr>) init_state))
       = 400
   \<and> falsy (tr_tokenId (transfer_10\<lparr> fromPrivateKey := None, tr_tokenId := None \<rparr>))
   \<and> fst (transfer stub_env (transfer_10\<lparr> fromPrivateKey := None, tr_tokenId := None \<rparr>)
          init_state) = Response 400 (ErrorBody ''Missing fields'' None)
   \<and> hederaClient no_operator_env = None
   \<and> fst (transfer no_operator_env (transfer_10\<lparr> fromPrivateKey := None \<rparr>) init_state) =
       Response 500 (ErrorBody ''Hedera client not configured'' None)"
proof -
  have h: "falsy (fromPrivateKey (transfer_10\<lparr> fromPrivateKey := None \<rparr>))" by simp
  have h': "falsy (fromPrivateKey (transfer_10\<lparr> fromPrivateKey := None, tr_tokenId := None \<rparr>))"
    by simp
  have n: "hederaClient no_operator_env = None"
    by (simp add: hederaClient_def no_operator_env_def)
  from transfer_without_key [OF h, of stub_env init_state]
  have a: "snd (transfer stub_env (transfer_10\<lparr> fromPrivateKey := None \<rparr>) init_state) =
             init_state
           \<and> status_code (fst (transfer stub_env (transfer_10\<lparr> fromPrivateKey := None \<rparr>)
               init_state)) = 400"
    by (simp add: stub_client transfer_10_def transferTx_10)
  from transfer_without_key [OF h', of stub_env init_state]
  have b: "fst (transfer stub_env (transfer_10\<lparr> fromPrivateKey := None, tr_tokenId := None \<rparr>)
             init_state) = Response 400 (ErrorBody ''Missing fields'' None)"
    by (simp add: stub_client error_def)
  from transfer_without_key [OF h, of no_operator_env init_state]
  have c: "fst (transfer no_operator_env (transfer_10\<lparr> fromPrivateKey := None \<rparr>) init_state) =
             Response 500 (ErrorBody ''Hedera client not configured'' None)"
    by (simp add: n error_def)
  from a b c n show ?thesis by (simp add: stub_client)
qed


section \<open>Token creation\<close>

lemma hederaClient_Some:
  assumes "hederaClient e = Some (a, k)"
  shows "accountIdFromString e (HEDERA_OPERATOR_ID e) = Inr a"
    and "privateKeyFromString e (HEDERA_OPERATOR_KEY e) = Inr k"
  using assms unfolding hederaClient_def
  by (simp_all split: if_splits sum.splits)

lemma token_create_ledger_log:
  "ledger_log (snd (token_create e req s)) =
     ledger_log s @
       (case hederaClient e of
          None \<Rightarrow> []
        | Some client \<Rightarrow>
           if falsy (tc_name req) \<or> falsy (tc_symbol req) then []
           else (case tokenCreateTx e req of
                   Inl m \<Rightarrow> []
                 | Inr tx \<Rightarrow>
                    Execute (TokenCreate tx) #
                      (case execute e (TokenCreate tx) of
                         Inl m \<Rightarrow> [] | Inr resp \<Rightarrow> [GetReceipt resp])))"
  unfolding token_create_def Let_def
  by (simp split: option.splits sum.splits)

lemma token_create_executes:
  assumes "Execute (TokenCreate tx) \<in> set (ledger_log (snd (token_create e req s)))"
      and "Execute (TokenCreate tx) \<notin> set (ledger_log s)"
  shows "tokenCreateTx e req = Inr tx \<and> hederaClient e \<noteq> None"
proof (cases "hederaClient e")
  case None
  with assms show ?thesis by (simp add: token_create_ledger_log)
next
  case (Some c)
  with assms show ?thesis
    by (auto simp: token_create_ledger_log split: sum.splits if_splits)
qed

lemma tokenCreateTx_fields:
  assumes "tokenCreateTx e req = Inr tx" and "hederaClient e = Some (operator, key)"
  shows "tokenType tx = FungibleCommon" "supplyType tx = Infinite"
        "adminKey tx = publicKey e key" "supplyKey tx = publicKey e key"
        "tc_decimals req = None \<longrightarrow> decimals tx = Integral 0"
        "tc_initialSupply req = None \<longrightarrow> initialSupply tx = 0"
        "tc_treasuryAccountId req = None \<longrightarrow> treasuryAccountId tx = operator"
  using assms(1) hederaClient_Some [OF assms(2)]
  unfolding tokenCreateTx_def Let_def
  by (auto split: sum.splits if_splits)

text \<open>
  C10. Every token-create transaction that the handler submits is fungible-common with
  infinite supply type and has the public key of the operator's key as admin key and as
  supply key; where the request omits \<^verbatim>\<open>decimals\<close> the transaction has 0 decimals,
  where it omits \<^verbatim>\<open>initialSupply\<close> the initial supply is 0, and where it omits
  \<^verbatim>\<open>treasuryAccountId\<close> the treasury is the operator's account.
\<close>

theorem token_create_defaults:
  assumes "Execute (TokenCreate tx) \<in> set (ledger_log (snd (token_create e req s)))"
      and "Execute (TokenCreate tx) \<notin> set (ledger_log s)"
  shows "\<exists>operator key. hederaClient e = Some (operator, key)
          \<and> tokenType tx = FungibleCommon \<and> supplyType tx = Infinite
          \<and> adminKey tx = publicKey e key \<and> supplyKey tx = publicKey e key
          \<and> (tc_decimals req = None \<longrightarrow> decimals tx = Integral 0)
          \<and> (tc_initialSupply req = None \<longrightarrow> initialSupply tx = 0)
          \<and> (tc_treasuryAccountId req = None \<longrightarrow> treasuryAccountId tx = operator)"
proof -
  from token_create_executes [OF assms] obtain operator key where
    c: "tokenCreateTx e req = Inr tx" and h: "hederaClient e = Some (operator, key)"
    by auto
  from tokenCreateTx_fields [OF c h] h show ?thesis by simp
qed

lemma tokenCreateTx_gold: "tokenCreateTx stub_env create_gold = Inr gold_tx"
  by (simp add: tokenCreateTx_def create_gold_def gold_tx_def Let_def)
     (simp add: stub_env_def)

lemma token_create_gold_log:
  "ledger_log (snd (token_create stub_env create_gold init_state)) =
     [Execute (TokenCreate gold_tx), GetReceipt \<lparr> resp_transactionId = ''0.0.1@123'' \<rparr>]"
  by (simp add: token_create_ledger_log stub_client tokenCreateTx_gold init_state_fields)
     (simp add: create_gold_def stub_env_def)

theorem token_create_defaults_witness:
  "Execute (TokenCreate gold_tx) \<in> set (ledger_log (snd (token_create stub_env create_gold init_state)))
   \<and> Execute (TokenCreate gold_tx) \<notin> set (ledger_log init_state)
   \<and> tc_decimals create_gold = None \<and> tc_initialSupply create_gold = None
   \<and> tc_treasuryAccountId create_gold = None
   \<and> decimals gold_tx = Integral 0 \<and> initialSupply gold_tx = 0
   \<and> treasuryAccountId gold_tx = AccountId ''0.0.2''
   \<and> adminKey gold_tx = PublicKey ''302e'' \<and> supplyKey gold_tx = PublicKey ''302e''"
proof -
  have h1: "Execute (TokenCreate gold_tx)
      \<in> set (ledger_log (snd (token_create stub_env create_gold init_state)))"
    by (simp add: token_create_gold_log)
  have h2: "Execute (TokenCreate gold_tx) \<notin> set (ledger_log init_state)"
    by (simp add: init_state_fields)
  have h3: "tc_decimals create_gold = None \<and> tc_initialSupply create_gold = None
   \<and> tc_treasuryAccountId create_gold = None" by (simp add: create_gold_def)
  from token_create_defaults [OF h1 h2] h3 h1 h2 show ?thesis
    by (auto simp: stub_client) (simp_all add: stub_env_def)
qed


section \<open>Prices\<close>

lemma stub_fetch: "fetchCoinGecko stub_env = Fetched_ok [snapshot_x]"
  by (simp add: fetchCoinGecko_def stub_env_def json_object_def snapshot_x_def)

lemma oracle_down_fetch: "fetchCoinGecko oracle_down_env = Fetched_not_ok 503 ''unavailable''"
  by (simp add: fetchCoinGecko_def oracle_down_env_def)

lemma oracle_down_memory: "\<not> durable oracle_down_env"
  by (simp add: durable_def oracle_down_env_def stub_env_def)

lemma refresh_stub:
  "priceUpdaterOnce stub_env init_state = init_state\<lparr> mem_prices := Some [snapshot_x] \<rparr>"
  by (simp add: priceUpdaterOnce_def stub_fetch stub_memory)

lemma refresh_oracle_down: "priceUpdaterOnce oracle_down_env s = s"
  by (simp add: priceUpdaterOnce_def oracle_down_fetch)

text \<open>
  C5, as the claim states it, fails: in memory mode, after a refresh has succeeded and the
  snapshot set is in \<^verbatim>\<open>memoryStore.prices\<close>, a read while the oracle is down is
  answered 502 instead of the cached set.
\<close>

theorem prices_read_counterexample:
  "mem_prices (priceUpdaterOnce stub_env init_state) = Some [snapshot_x]
   \<and> fst (prices_get oracle_down_env (priceUpdaterOnce stub_env init_state)) =
       Response 502 (ErrorBody ''Coingecko fetch failed'' None)"
  by (simp add: refresh_stub prices_get_def oracle_down_memory oracle_down_fetch error_def)

text \<open>
  C5, amended. The price read changes no store. In durable mode it answers with the
  documents of the Price collection. In memory mode it always fetches from the oracle on
  demand: the answer is the fetched snapshot set, or 502 when the fetch fails, and it does
  not depend on \<^verbatim>\<open>memoryStore.prices\<close>.
\<close>

theorem prices_read:
  "snd (prices_get e s) = s
   \<and> (durable e \<longrightarrow> fst (prices_get e s) = json (PricesBody (db_prices s)))
   \<and> (\<not> durable e \<longrightarrow>
        fst (prices_get e (s\<lparr> mem_prices := c \<rparr>)) = fst (prices_get e s)
        \<and> (case fetch e of
             OkJson members \<Rightarrow>
               \<exists>data. fetchCoinGecko e = Fetched_ok data
                  \<and> fst (prices_get e s) = json (PricesBody data)
           | _ \<Rightarrow> fst (prices_get e s) = error 502 ''Coingecko fetch failed''))"
  by (cases "fetch e") (simp_all add: prices_get_def fetchCoinGecko_def)

text \<open>
  C6, as the claim states it, fails in memory mode: the failed refresh leaves the cached set
  as it was, but the read that follows does not return that set; with the oracle still down
  it is answered 502.
\<close>

theorem failed_refresh_counterexample:
  "oracle_failed (fetch oracle_down_env)
   \<and> mem_prices (priceUpdaterOnce stub_env init_state) = Some [snapshot_x]
   \<and> priceUpdaterOnce oracle_down_env (priceUpdaterOnce stub_env init_state) =
       priceUpdaterOnce stub_env init_state
   \<and> fst (prices_get oracle_down_env
            (priceUpdaterOnce oracle_down_env (priceUpdaterOnce stub_env init_state))) =
       Response 502 (ErrorBody ''Coingecko fetch failed'' None)"
  by (simp add: refresh_stub refresh_oracle_down prices_get_def oracle_down_memory
      oracle_down_fetch error_def)
     (simp add: oracle_down_env_def)

text \<open>
  C6, amended. A refresh whose oracle request fails (transport error, non-success response
  or unreadable body) returns normally and leaves every store exactly as it was, the
  Price collection and \<^verbatim>\<open>memoryStore.prices\<close> included; in durable mode a
  price read after it returns the set that was stored before the failed refresh.
\<close>

theorem failed_refresh_keeps_cache:
  assumes "oracle_failed (fetch e)"
  shows "priceUpdaterOnce e s = s
       \<and> (durable e' \<longrightarrow>
            fst (prices_get e' (priceUpdaterOnce e s)) = json (PricesBody (db_prices s))
            \<and> fst (prices_get e' (priceUpdaterOnce e s)) = fst (prices_get e' s))"
  using assms
  by (cases "fetch e") (simp_all add: priceUpdaterOnce_def fetchCoinGecko_def prices_get_def)

lemma map_set_distinct: "distinct (map fst m) \<Longrightarrow> distinct (map fst (map_set k v m))"
proof (induction m)
  case Nil then show ?case by simp
next
  case (Cons p m)
  then show ?case using map_set_keys [of k v m] by (auto simp: image_iff)
qed

lemma fold_map_set_distinct:
  "distinct (map fst obj) \<Longrightarrow> distinct (map fst (fold (\<lambda>(k, v) obj. map_set k v obj) ms obj))"
  by (induction ms arbitrary: obj) (auto simp: map_set_distinct)

lemma json_object_distinct: "distinct (map fst (json_object ms))"
  unfolding json_object_def by (rule fold_map_set_distinct) simp

lemma fetched_distinct:
  "fetchCoinGecko e = Fetched_ok data \<Longrightarrow> distinct (map coinId data)"
proof (cases "fetch e")
  case (OkJson ms)
  assume "fetchCoinGecko e = Fetched_ok data"
  with OkJson have "map coinId data = map fst (json_object ms)"
    by (auto simp: fetchCoinGecko_def comp_def case_prod_beta)
  then show ?thesis by (simp add: json_object_distinct)
qed (simp_all add: fetchCoinGecko_def)

lemma fetched_updatedAt:
  "fetchCoinGecko e = Fetched_ok data \<Longrightarrow> p \<in> set data \<Longrightarrow> updatedAt p = now e"
  by (cases "fetch e") (auto simp: fetchCoinGecko_def)

lemma upsert_ids:
  "coinId ` set (findOneAndUpdate_upsert p ds) = insert (coinId p) (coinId ` set ds)"
  by (induction ds) auto

lemma upsert_distinct:
  "distinct (map coinId ds) \<Longrightarrow> distinct (map coinId (findOneAndUpdate_upsert p ds))"
proof (induction ds)
  case Nil then show ?case by simp
next
  case (Cons d ds)
  then show ?case using upsert_ids [of p ds] by (auto simp: image_iff)
qed

lemma upsert_filter:
  "distinct (map coinId ds) \<Longrightarrow>
     filter (\<lambda>d. coinId d = c) (findOneAndUpdate_upsert p ds) =
       (if coinId p = c then [p] else filter (\<lambda>d. coinId d = c) ds)"
proof (induction ds)
  case Nil then show ?case by simp
next
  case (Cons d ds)
  then show ?case by (auto simp: filter_empty_conv image_iff)
qed

lemma fold_upsert_distinct:
  "distinct (map coinId ds) \<Longrightarrow>
     distinct (map coinId (fold (\<lambda>p ds. findOneAndUpdate_upsert (f p) ds) data ds))"
  by (induction data arbitrary: ds) (auto simp: upsert_distinct)

lemma fold_upsert_keep:
  assumes "\<And>q. coinId (f q) = coinId q"
  shows "distinct (map coinId ds) \<Longrightarrow> c \<notin> coinId ` set data \<Longrightarrow>
     filter (\<lambda>d. coinId d = c) (fold (\<lambda>p ds. findOneAndUpdate_upsert (f p) ds) data ds) =
       filter (\<lambda>d. coinId d = c) ds"
proof (induction data arbitrary: ds)
  case Nil then show ?case by simp
next
  case (Cons q data)
  have d: "distinct (map coinId (findOneAndUpdate_upsert (f q) ds))"
    using Cons.prems(1) by (rule upsert_distinct)
  from Cons.prems(2) have n: "c \<notin> coinId ` set data" and qc: "coinId q \<noteq> c" by auto
  from Cons.IH [OF d n] upsert_filter [OF Cons.prems(1), of c "f q"] qc assms
  show ?case by simp
qed

lemma fold_upsert_filter:
  assumes f: "\<And>q. coinId (f q) = coinId q"
  shows "distinct (map coinId ds) \<Longrightarrow> distinct (map coinId data) \<Longrightarrow> p \<in> set data \<Longrightarrow>
     filter (\<lambda>d. coinId d = coinId p) (fold (\<lambda>p ds. findOneAndUpdate_upsert (f p) ds) data ds)
           = [f p]"
proof (induction data arbitrary: ds)
  case Nil then show ?case by simp
next
  case (Cons q data)
  have d: "distinct (map coinId (findOneAndUpdate_upsert (f q) ds))"
    using Cons.prems(1) by (rule upsert_distinct)
  from Cons.prems(2) have dd: "distinct (map coinId data)" and
    qn: "coinId q \<notin> coinId ` set data" by auto
  show ?case
  proof (cases "p \<in> set data")
    case True
    from Cons.IH [OF d dd True] show ?thesis by simp
  next
    case False
    with Cons.prems(3) have pq: "p = q" by simp
    from fold_upsert_keep [of f, OF f d qn] upsert_filter [OF Cons.prems(1), of "coinId q" "f q"] f pq
    show ?thesis by simp
  qed
qed

lemma priceUpdaterOnce_distinct:
  assumes "distinct (map coinId (live_prices e s))"
  shows "distinct (map coinId (live_prices e (priceUpdaterOnce e s)))"
proof (cases "fetchCoinGecko e")
  case (Fetched_ok data)
  show ?thesis
  proof (cases "durable e")
    case True
    with assms have "distinct (map coinId (db_prices s))" by (simp add: live_prices_def)
    then have "distinct (map coinId
        (fold (\<lambda>p ds. findOneAndUpdate_upsert (p\<lparr> updatedAt := now e \<rparr>) ds) data (db_prices s)))"
      by (rule fold_upsert_distinct)
    with True Fetched_ok show ?thesis by (simp add: priceUpdaterOnce_def live_prices_def)
  next
    case False
    with Fetched_ok fetched_distinct [OF Fetched_ok] show ?thesis
      by (simp add: priceUpdaterOnce_def live_prices_def)
  qed
next
  case (Fetched_not_ok st msg)
  with assms show ?thesis by (simp add: priceUpdaterOnce_def)
next
  case (Fetched_error m)
  with assms show ?thesis by (simp add: priceUpdaterOnce_def)
qed

lemma live_prices_mode: "durable e' = durable e \<Longrightarrow> live_prices e' s = live_prices e s"
  by (simp add: live_prices_def)

text \<open>
  From the start of the server, whatever the oracle answers at each refresh, the snapshot
  set has at most one snapshot per asset id (the mode is fixed for the life of the process).
\<close>

lemma refreshes_distinct:
  assumes "\<forall>e' \<in> set es. durable e' = durable e"
      and "distinct (map coinId (live_prices e s))"
  shows "distinct (map coinId (live_prices e (fold priceUpdaterOnce es s)))"
  using assms
proof (induction es arbitrary: s)
  case Nil then show ?case by simp
next
  case (Cons e1 es)
  from Cons.prems have m: "durable e1 = durable e" by simp
  from Cons.prems(2) have "distinct (map coinId (live_prices e1 s))"
    by (simp add: live_prices_mode [OF m])
  then have "distinct (map coinId (live_prices e1 (priceUpdaterOnce e1 s)))"
    by (rule priceUpdaterOnce_distinct)
  then have "distinct (map coinId (live_prices e (priceUpdaterOnce e1 s)))"
    by (simp add: live_prices_mode [OF m])
  with Cons.IH [of "priceUpdaterOnce e1 s"] Cons.prems(1) show ?case by simp
qed

lemma refreshes_from_start_distinct:
  "\<forall>e' \<in> set es. durable e' = durable e \<Longrightarrow>
     distinct (map coinId (live_prices e (fold priceUpdaterOnce es init_state)))"
  by (rule refreshes_distinct) (simp_all add: live_prices_def init_state_fields)

text \<open>
  C9. The snapshot set is empty at the start, and if the snapshot set of the backend in use
  has at most one snapshot per asset id, it has so after a refresh. After a successful
  refresh every fetched asset id has exactly one snapshot, the fetched one; in memory mode
  the snapshot set is then the fetched set as a whole. A failed refresh changes nothing.
\<close>

theorem refresh_one_snapshot_per_id:
  assumes "distinct (map coinId (live_prices e s))"
  shows "live_prices e init_state = []
       \<and> distinct (map coinId (live_prices e (priceUpdaterOnce e s)))
       \<and> (case fetchCoinGecko e of
            Fetched_ok data \<Rightarrow>
              (\<forall>p \<in> set data.
                  filter (\<lambda>d. coinId d = coinId p) (live_prices e (priceUpdaterOnce e s)) = [p])
              \<and> (\<not> durable e \<longrightarrow> mem_prices (priceUpdaterOnce e s) = Some data)
          | _ \<Rightarrow> priceUpdaterOnce e s = s)"
proof (cases "fetchCoinGecko e")
  case (Fetched_ok data)
  note dd = fetched_distinct [OF Fetched_ok]
  show ?thesis
  proof (cases "durable e")
    case True
    have u: "\<And>p. p \<in> set data \<Longrightarrow> p\<lparr> updatedAt := now e \<rparr> = p"
      using fetched_updatedAt [OF Fetched_ok] by simp
    from assms True have ds: "distinct (map coinId (db_prices s))"
      by (simp add: live_prices_def)
    have "\<forall>p \<in> set data. filter (\<lambda>d. coinId d = coinId p)
            (fold (\<lambda>p ds. findOneAndUpdate_upsert (p\<lparr> updatedAt := now e \<rparr>) ds) data (db_prices s)) = [p]"
    proof
      fix p assume p: "p \<in> set data"
      from fold_upsert_filter [of "\<lambda>p. p\<lparr> updatedAt := now e \<rparr>", OF _ ds dd p] u [OF p]
      show "filter (\<lambda>d. coinId d = coinId p)
            (fold (\<lambda>p ds. findOneAndUpdate_upsert (p\<lparr> updatedAt := now e \<rparr>) ds) data (db_prices s)) = [p]"
        by simp
    qed
    with True Fetched_ok fold_upsert_distinct [OF ds, of "\<lambda>p. p\<lparr> updatedAt := now e \<rparr>" data]
    show ?thesis by (simp add: priceUpdaterOnce_def live_prices_def init_state_fields)
  next
    case False
    have "\<forall>p \<in> set data. filter (\<lambda>d. coinId d = coinId p) data = [p]"
    proof
      fix p assume p: "p \<in> set data"
      from dd p show "filter (\<lambda>d. coinId d = coinId p) data = [p]"
      proof (induction data)
        case Nil then show ?case by simp
      next
        case (Cons a data)
        then show ?case by (auto simp: filter_empty_conv image_iff)
      qed
    qed
    with False Fetched_ok dd show ?thesis
      by (simp add: priceUpdaterOnce_def live_prices_def init_state_fields)
  qed
next
  case (Fetched_not_ok st msg)
  with assms show ?thesis
    by (simp add: priceUpdaterOnce_def) (simp add: live_prices_def init_state_fields)
next
  case (Fetched_error m)
  with assms show ?thesis
    by (simp add: priceUpdaterOnce_def) (simp add: live_prices_def init_state_fields)
qed


lemma durable_fetch: "fetchCoinGecko durable_env = Fetched_ok [snapshot_x]"
  by (simp add: fetchCoinGecko_def durable_env_def stub_env_def json_object_def snapshot_x_def)

lemma durable_down_durable: "durable durable_down_env"
  by (simp add: durable_def durable_down_env_def durable_env_def)

lemma refresh_durable:
  "priceUpdaterOnce durable_env init_state = init_state\<lparr> db_prices := [snapshot_x] \<rparr>"
  by (simp add: priceUpdaterOnce_def durable_fetch durable_env_durable init_state_fields)
     (simp add: snapshot_x_def durable_env_def stub_env_def)

theorem prices_read_witness:
  "\<not> durable stub_env
   \<and> fst (prices_get stub_env init_state) = json (PricesBody [snapshot_x])
   \<and> durable durable_env
   \<and> fst (prices_get durable_env (priceUpdaterOnce durable_env init_state)) =
       json (PricesBody [snapshot_x])"
proof -
  have f: "fetch stub_env = OkJson [(''x'', \<lparr> quote_usd = Some (123 / 100), usd_24h_change = None \<rparr>)]"
    by (simp add: stub_env_def)
  from prices_read [of stub_env init_state]
       prices_read [of durable_env "priceUpdaterOnce durable_env init_state"]
  show ?thesis
    by (simp add: stub_memory durable_env_durable f stub_fetch refresh_durable)
qed

theorem failed_refresh_keeps_cache_witness:
  "oracle_failed (fetch durable_down_env) \<and> durable durable_down_env
   \<and> db_prices (priceUpdaterOnce durable_env init_state) = [snapshot_x]
   \<and> priceUpdaterOnce durable_down_env (priceUpdaterOnce durable_env init_state) =
       priceUpdaterOnce durable_env init_state
   \<and> fst (prices_get durable_down_env
            (priceUpdaterOnce durable_down_env (priceUpdaterOnce durable_env init_state))) =
       json (PricesBody [snapshot_x])"
proof -
  have h: "oracle_failed (fetch durable_down_env)"
    by (simp add: durable_down_env_def)
  from failed_refresh_keeps_cache [OF h, of "priceUpdaterOnce durable_env init_state"
         durable_down_env]
  have a: "priceUpdaterOnce durable_down_env (priceUpdaterOnce durable_env init_state) =
             priceUpdaterOnce durable_env init_state"
    and b: "fst (prices_get durable_down_env
              (priceUpdaterOnce durable_down_env (priceUpdaterOnce durable_env init_state))) =
            json (PricesBody (db_prices (priceUpdaterOnce durable_env init_state)))"
    by (auto simp add: durable_down_durable)
  have c: "db_prices (priceUpdaterOnce durable_env init_state) = [snapshot_x]"
    by (simp add: refresh_durable)
  from h a b c durable_down_durable show ?thesis by simp
qed

theorem refresh_one_snapshot_per_id_witness:
  "distinct (map coinId (live_prices durable_env (priceUpdaterOnce durable_env init_state)))
   \<and> distinct (map coinId (live_prices durable_env
        (priceUpdaterOnce durable_env (priceUpdaterOnce durable_env init_state))))
   \<and> filter (\<lambda>d. coinId d = ''x'') (live_prices durable_env
        (priceUpdaterOnce durable_env (priceUpdaterOnce durable_env init_state))) = [snapshot_x]
   \<and> \<not> durable stub_env
   \<and> mem_prices (priceUpdaterOnce stub_env (priceUpdaterOnce stub_env init_state)) =
       Some [snapshot_x]"
proof -
  have h: "distinct (map coinId (live_prices durable_env (priceUpdaterOnce durable_env init_state)))"
    by (simp add: refresh_durable live_prices_def durable_env_durable)
  have g: "distinct (map coinId (live_prices stub_env (priceUpdaterOnce stub_env init_state)))"
    by (simp add: refresh_stub live_prices_def stub_memory)
  have x: "coinId snapshot_x = ''x''" by (simp add: snapshot_x_def)
  from refresh_one_snapshot_per_id [OF h] refresh_one_snapshot_per_id [OF g] h x
  show ?thesis by (simp add: durable_fetch stub_fetch stub_memory)
qed

section \<open>Listing transactions\<close>

lemma insert_desc_set: "set (insert_desc t xs) = insert t (set xs)"
  by (induction xs) auto

lemma insert_desc_newest_first:
  "newest_first xs \<Longrightarrow> newest_first (insert_desc t xs)"
  unfolding newest_first_def
proof (induction xs)
  case Nil then show ?case by simp
next
  case (Cons x xs)
  then show ?case by (auto simp: insert_desc_set intro: order_trans less_imp_le)
qed

lemma sort_createdAt_desc_set: "set (sort_createdAt_desc ts) = set ts"
  unfolding sort_createdAt_desc_def by (induction ts) (simp_all add: insert_desc_set)

lemma sort_createdAt_desc_newest_first: "newest_first (sort_createdAt_desc ts)"
  unfolding sort_createdAt_desc_def
  by (induction ts) (simp_all add: insert_desc_newest_first, simp add: newest_first_def)

lemma newest_first_take: "newest_first ts \<Longrightarrow> newest_first (take n ts)"
  unfolding newest_first_def by (rule sorted_wrt_take)

text \<open>
  For a positive limit the listing is as the claim says, on both backends: at most
  \<open>limit\<close> records, each with the requested \<^verbatim>\<open>accountId\<close>; on the durable backend in
  descending order of \<^verbatim>\<open>createdAt\<close>, on the memory backend the first \<open>limit\<close> matching
  records of the store, which is kept most recently stored first.
\<close>

lemma transactions_listing_positive_limit:
  assumes "0 < limit_of q"
  shows "\<exists>r. fst (transactions_get e acc q s) = json (TransactionsBody acc r)
           \<and> int (length r) \<le> limit_of q
           \<and> (\<forall>t \<in> set r. accountId t = Some acc)
           \<and> (if durable e then newest_first r \<and> set r \<subseteq> set (db_txs s)
               else r = take (nat (limit_of q))
                          (filter (\<lambda>t. accountId t = Some acc) (mem_txs s)))"
proof (cases "durable e")
  case True
  define m where "m = filter (\<lambda>t. accountId t = Some acc) (db_txs s)"
  define r where "r = take (nat (limit_of q)) (sort_createdAt_desc m)"
  from assms have "mongo_limit (limit_of q) (sort_createdAt_desc m) = r"
    by (simp add: mongo_limit_def r_def)
  with True have resp: "fst (transactions_get e acc q s) = json (TransactionsBody acc r)"
    by (simp add: transactions_get_def Let_def m_def)
  have "length r \<le> nat (limit_of q)"
    unfolding r_def by (simp only: length_take min.cobounded2)
  with assms have len: "int (length r) \<le> limit_of q" by linarith
  have "set r \<subseteq> set (sort_createdAt_desc m)"
    unfolding r_def by (rule set_take_subset)
  then have sub: "set r \<subseteq> set m" by (simp only: sort_createdAt_desc_set)
  have mm: "\<forall>t \<in> set m. accountId t = Some acc \<and> t \<in> set (db_txs s)"
    unfolding m_def by simp
  from sub mm have match: "\<forall>t \<in> set r. accountId t = Some acc" by blast
  from sub mm have stored: "set r \<subseteq> set (db_txs s)" by blast
  have nf: "newest_first r"
    unfolding r_def by (rule newest_first_take) (rule sort_createdAt_desc_newest_first)
  show ?thesis
  proof (intro exI conjI)
    show "fst (transactions_get e acc q s) = json (TransactionsBody acc r)" by (rule resp)
    show "int (length r) \<le> limit_of q" by (rule len)
    show "\<forall>t \<in> set r. accountId t = Some acc" by (rule match)
    show "if durable e then newest_first r \<and> set r \<subseteq> set (db_txs s)
          else r = take (nat (limit_of q))
                     (filter (\<lambda>t. accountId t = Some acc) (mem_txs s))"
      using True nf stored by simp
  qed
next
  case False
  define r where "r = take (nat (limit_of q)) (filter (\<lambda>t. accountId t = Some acc) (mem_txs s))"
  from assms have "slice0 (limit_of q) (filter (\<lambda>t. accountId t = Some acc) (mem_txs s)) = r"
    by (simp add: slice0_def r_def)
  with False have resp: "fst (transactions_get e acc q s) = json (TransactionsBody acc r)"
    by (simp add: transactions_get_def Let_def)
  have "length r \<le> nat (limit_of q)"
    unfolding r_def by (simp only: length_take min.cobounded2)
  with assms have len: "int (length r) \<le> limit_of q" by linarith
  have "set r \<subseteq> set (filter (\<lambda>t. accountId t = Some acc) (mem_txs s))"
    unfolding r_def by (rule set_take_subset)
  then have match: "\<forall>t \<in> set r. accountId t = Some acc" by auto
  show ?thesis
  proof (intro exI conjI)
    show "fst (transactions_get e acc q s) = json (TransactionsBody acc r)" by (rule resp)
    show "int (length r) \<le> limit_of q" by (rule len)
    show "\<forall>t \<in> set r. accountId t = Some acc" by (rule match)
    show "if durable e then newest_first r \<and> set r \<subseteq> set (db_txs s)
          else r = take (nat (limit_of q))
                     (filter (\<lambda>t. accountId t = Some acc) (mem_txs s))"
      unfolding r_def using False by simp
  qed
qed

lemma later_env_durable: "durable later_env" "now later_env = 2000" "create_rejected later_env = None"
  by (simp_all add: later_env_def durable_env_def stub_env_def durable_def)

lemma store_two_docs_db:
  "store_tx durable_env tx_old init_state = Inr one_doc_db"
  "store_tx later_env tx_new one_doc_db = Inr two_docs_db"
  by (simp_all add: store_tx_def Transaction_create_def durable_env_durable durable_ledger
      later_env_durable one_doc_db_def two_docs_db_def tx_old_def tx_new_def init_state_def)

lemma store_two_docs_mem:
  "store_tx stub_env tx_old init_state = Inr (init_state\<lparr> mem_txs := [tx_old] \<rparr>)"
  "store_tx stub_env tx_new (init_state\<lparr> mem_txs := [tx_old] \<rparr>) = Inr two_docs_mem"
  by (simp_all add: store_tx_def stub_memory two_docs_mem_def init_state_def)

text \<open>With limit 1 the durable backend returns the newer of the two records.\<close>

lemma transactions_limit_one:
  "fst (transactions_get durable_env ''0.0.1'' (Some 1) two_docs_db) =
     json (TransactionsBody ''0.0.1'' [tx_new\<lparr> createdAt := Some 2000 \<rparr>])"
  by (simp add: transactions_get_def Let_def durable_env_durable mongo_limit_def
      sort_createdAt_desc_def two_docs_db_def init_state_def tx_old_def tx_new_def)

text \<open>
  C7 fails on the code. The claim: the listing has at most \<open>limit\<close> records on both
  backends. With the two records of account \<^verbatim>\<open>0.0.1\<close> stored and \<^verbatim>\<open>limit=0\<close>, the
  durable backend returns both records, newest first, because \<^verbatim>\<open>.limit(0)\<close> sets no
  limit; the memory backend returns none at the same request, as \<^verbatim>\<open>slice(0, 0)\<close> is
  empty. The handler passes the limit on unchecked.
\<close>

theorem transactions_limit_zero:
  "store_tx durable_env tx_old init_state = Inr one_doc_db
   \<and> store_tx later_env tx_new one_doc_db = Inr two_docs_db
   \<and> limit_of (Some 0) = 0
   \<and> transactions_get durable_env ''0.0.1'' (Some 0) two_docs_db =
       (json (TransactionsBody ''0.0.1''
                [tx_new\<lparr> createdAt := Some 2000 \<rparr>, tx_old\<lparr> createdAt := Some 1000 \<rparr>]),
        two_docs_db)
   \<and> store_tx stub_env tx_new (init_state\<lparr> mem_txs := [tx_old] \<rparr>) = Inr two_docs_mem
   \<and> transactions_get stub_env ''0.0.1'' (Some 0) two_docs_mem =
       (json (TransactionsBody ''0.0.1'' []), two_docs_mem)"
proof -
  have d: "transactions_get durable_env ''0.0.1'' (Some 0) two_docs_db =
       (json (TransactionsBody ''0.0.1''
                [tx_new\<lparr> createdAt := Some 2000 \<rparr>, tx_old\<lparr> createdAt := Some 1000 \<rparr>]),
        two_docs_db)"
    by (simp add: transactions_get_def Let_def durable_env_durable mongo_limit_def
        sort_createdAt_desc_def)
       (simp add: two_docs_db_def init_state_def tx_old_def tx_new_def)
  have m: "transactions_get stub_env ''0.0.1'' (Some 0) two_docs_mem =
       (json (TransactionsBody ''0.0.1'' []), two_docs_mem)"
    by (simp add: transactions_get_def Let_def stub_memory slice0_def)
  from d m show ?thesis by (simp add: store_two_docs_db store_two_docs_mem)
qed

end
